theory Spec2Isabelle
  imports Complex_Main
begin

section \<open>Token codec\<close>

text \<open>
  The services sign and check their tokens with the jsonwebtoken library. The library
  stamps a token with the clock in whole seconds and, as the source passes no token
  identifier, adds nothing else of its own: a signed token is a function of its payload,
  the issue second, the expiry and the key, and is modelled by exactly these four
  components. \<open>Opaque\<close> stands for every string that is not a well-formed signed token.
  Two tokens are the same string iff they are the same value of this type.
\<close>

type_synonym uid = string

datatype role = Customer | Seller | Admin

datatype claims =
    AccessClaims uid string role
  | RefreshClaims uid
  | VerifyClaims uid string

fun userId :: "claims \<Rightarrow> uid" where
  "userId (AccessClaims u e r) = u"
| "userId (RefreshClaims u) = u"
| "userId (VerifyClaims u e) = u"

datatype token = Jwt claims nat nat string | Opaque string

datatype span = Days nat | Hours nat

fun seconds :: "span \<Rightarrow> nat" where
  "seconds (Days n) = n * 86400"
| "seconds (Hours n) = n * 3600"

definition JWT_EXPIRES_IN :: span where
  "JWT_EXPIRES_IN = Days 7"

definition REFRESH_TOKEN_EXPIRES_IN :: span where
  "REFRESH_TOKEN_EXPIRES_IN = Days 30"

text \<open>\<open>jwt.sign(payload, key, { expiresIn })\<close> at clock reading \<open>t\<close> (seconds).\<close>

definition jwt_sign :: "claims \<Rightarrow> string \<Rightarrow> span \<Rightarrow> nat \<Rightarrow> token" where
  "jwt_sign payload k expiresIn t = Jwt payload t (t + seconds expiresIn) k"

datatype jwt_error = TokenExpiredError | JsonWebTokenError

text \<open>\<open>jwt.verify(token, key)\<close>: the signature is checked first, then the expiry.\<close>

fun jwt_verify :: "token \<Rightarrow> string \<Rightarrow> nat \<Rightarrow> jwt_error + claims" where
  "jwt_verify (Opaque s) k t = Inl JsonWebTokenError"
| "jwt_verify (Jwt payload issued expires signed_with) k t =
     (if signed_with \<noteq> k then Inl JsonWebTokenError
      else if expires \<le> t then Inl TokenExpiredError
      else Inr payload)"

section \<open>Credential digests\<close>

text \<open>
  bcrypt is idealised: a digest records the salt and the secret it was computed from, and
  \<open>bcrypt.compare\<close> answers whether the candidate is that secret.
\<close>

datatype digest = Bcrypt nat string

fun bcrypt_compare :: "string \<Rightarrow> digest \<Rightarrow> bool" where
  "bcrypt_compare candidate (Bcrypt s secret) = (candidate = secret)"

section \<open>State of the auth service\<close>

record user =
  uid :: uid
  email :: string
  password :: digest
  firstName :: string
  lastName :: string
  phoneNumber :: "string option"
  isEmailVerified :: bool
  isPhoneVerified :: bool
  role :: role

text \<open>
  Keys of the shared store. The source builds them as strings with the literal prefixes
  \<open>blacklist:\<close>, \<open>refresh:\<close>, \<open>verify:\<close> and \<open>ratelimit:\<close>; one constructor per prefix
  keeps the namespaces apart as the prefixes do.
\<close>

datatype key = Blacklist token | Refresh uid | Verify uid | RateLimit string

datatype rvalue = Tok token | Num int

text \<open>An entry is a value and the absolute time (seconds) at which it expires, if any.\<close>

type_synonym entry = "rvalue \<times> nat option"

record world =
  users :: "user list"
  redis :: "key \<rightharpoonup> entry"
  outbox :: "(string \<times> token) list"

text \<open>
  What a request handler reads from its surroundings: the clock in seconds, the signing
  key, whether each collaborator answers, and the identifier and salt the libraries
  generate for a new account.
\<close>

record env =
  clock :: nat
  JWT_SECRET :: string
  mongo_up :: bool
  redis_up :: bool
  mail_up :: bool
  new_id :: uid
  new_salt :: nat

datatype fault = StoreError | DbError | ValidationError | MailError | CastError

subsection \<open>Key-value store commands\<close>

definition live :: "nat \<Rightarrow> entry \<Rightarrow> bool" where
  "live t e = (case snd e of None \<Rightarrow> True | Some d \<Rightarrow> t < d)"

definition lookup :: "nat \<Rightarrow> (key \<rightharpoonup> entry) \<Rightarrow> key \<Rightarrow> entry option" where
  "lookup t m k = (case m k of None \<Rightarrow> None | Some e \<Rightarrow> if live t e then Some e else None)"

definition redis_get :: "env \<Rightarrow> key \<Rightarrow> world \<Rightarrow> fault + rvalue option" where
  "redis_get e k w =
     (if \<not> redis_up e then Inl StoreError
      else Inr (map_option fst (lookup (clock e) (redis w) k)))"

definition redis_setEx :: "env \<Rightarrow> key \<Rightarrow> nat \<Rightarrow> rvalue \<Rightarrow> world \<Rightarrow> fault + world" where
  "redis_setEx e k ttl v w =
     (if \<not> redis_up e then Inl StoreError
      else Inr (w\<lparr>redis := (redis w)(k \<mapsto> (v, Some (clock e + ttl)))\<rparr>))"

definition redis_del :: "env \<Rightarrow> key \<Rightarrow> world \<Rightarrow> fault + world" where
  "redis_del e k w =
     (if \<not> redis_up e then Inl StoreError
      else Inr (w\<lparr>redis := (redis w)(k := None)\<rparr>))"

text \<open>
  \<open>INCR\<close> creates a missing key at 1 without an expiry and keeps the expiry of an existing
  one; on a value that is not a number the store replies with an error.
\<close>

definition redis_incr :: "env \<Rightarrow> key \<Rightarrow> world \<Rightarrow> fault + (int \<times> world)" where
  "redis_incr e k w =
     (if \<not> redis_up e then Inl StoreError
      else case lookup (clock e) (redis w) k of
             None \<Rightarrow> Inr (1, w\<lparr>redis := (redis w)(k \<mapsto> (Num 1, None))\<rparr>)
           | Some (Num n, d) \<Rightarrow> Inr (n + 1, w\<lparr>redis := (redis w)(k \<mapsto> (Num (n + 1), d))\<rparr>)
           | Some (Tok x, d) \<Rightarrow> Inl StoreError)"

text \<open>\<open>EXPIRE\<close> on a missing key does nothing; a timeout of zero deletes the key.\<close>

definition redis_expire :: "env \<Rightarrow> key \<Rightarrow> nat \<Rightarrow> world \<Rightarrow> fault + world" where
  "redis_expire e k secs w =
     (if \<not> redis_up e then Inl StoreError
      else case lookup (clock e) (redis w) k of
             None \<Rightarrow> Inr w
           | Some (v, d) \<Rightarrow>
               if secs = 0 then Inr (w\<lparr>redis := (redis w)(k := None)\<rparr>)
               else Inr (w\<lparr>redis := (redis w)(k \<mapsto> (v, Some (clock e + secs)))\<rparr>))"

section \<open>Responses\<close>

record user_view =
  v_id :: uid
  v_email :: string
  v_firstName :: string
  v_lastName :: string
  v_role :: role

datatype data =
    Session user_view token token span
  | Renewed token span

record response =
  status_code :: nat
  success :: bool
  message :: "string option"
  error_text :: "string option"
  data :: "data option"

definition reply :: "nat \<Rightarrow> bool \<Rightarrow> string \<Rightarrow> response" where
  "reply c ok m =
     \<lparr>status_code = c, success = ok, message = Some m, error_text = None, data = None\<rparr>"

datatype 'a outcome = Next 'a | Reply response

section \<open>Middleware\<close>

text \<open>
  The Authorization header: \<open>Bearer t\<close> is a header that starts with the scheme and whose
  second space-separated field is \<open>t\<close>; \<open>Other s\<close> is any other header text.
\<close>

datatype auth_header = Bearer token | Other string

fun truthy :: "rvalue option \<Rightarrow> bool" where
  "truthy None = False"
| "truthy (Some (Tok (Opaque s))) = (s \<noteq> [])"
| "truthy (Some (Tok (Jwt p i x k))) = True"
| "truthy (Some (Num n)) = True"

definition authenticate :: "env \<Rightarrow> auth_header option \<Rightarrow> world \<Rightarrow> claims outcome" where
  "authenticate e authHeader w =
     (case authHeader of
        None \<Rightarrow> Reply (reply 401 False ''No token provided'')
      | Some (Other s) \<Rightarrow> Reply (reply 401 False ''No token provided'')
      | Some (Bearer tok) \<Rightarrow>
          (case jwt_verify tok (JWT_SECRET e) (clock e) of
             Inl TokenExpiredError \<Rightarrow> Reply (reply 401 False ''Token has expired'')
           | Inl JsonWebTokenError \<Rightarrow> Reply (reply 401 False ''Invalid token'')
           | Inr decoded \<Rightarrow>
               (case redis_get e (Blacklist tok) w of
                  Inl f \<Rightarrow> Reply (reply 401 False ''Invalid token'')
                | Inr isBlacklisted \<Rightarrow>
                    if truthy isBlacklisted
                    then Reply (reply 401 False ''Token has been invalidated'')
                    else Next decoded)))"

text \<open>
  \<open>windowMs / 1000\<close> is passed to \<open>EXPIRE\<close>, which takes whole seconds: when the division
  is not exact the store replies with an error, which the handler catches like any other.
\<close>

definition rate_key :: "string \<Rightarrow> string \<Rightarrow> key" where
  "rate_key ip path = RateLimit (ip @ '':'' @ path)"

definition rateLimiter ::
  "int \<Rightarrow> nat \<Rightarrow> env \<Rightarrow> string \<Rightarrow> string \<Rightarrow> world \<Rightarrow> unit outcome \<times> world" where
  "rateLimiter limit windowMs e ip path w =
     (let k = rate_key ip path in
      case redis_incr e k w of
        Inl f \<Rightarrow> (Next (), w)
      | Inr (requests, w1) \<Rightarrow>
          (case (if requests = 1
                 then (if windowMs mod 1000 = 0
                       then redis_expire e k (windowMs div 1000) w1
                       else Inl StoreError)
                 else Inr w1) of
             Inl f \<Rightarrow> (Next (), w1)
           | Inr w2 \<Rightarrow>
               if requests > limit
               then (Reply (reply 429 False ''Too many requests, please try again later''), w2)
               else (Next (), w2)))"

section \<open>Strings\<close>

text \<open>
  A character stands for one code unit of a JavaScript string, and the model covers the
  strings whose code units are below 256. On these, \<open>length\<close> is the string's length,
  \<open>toLowerCase\<close> maps A to Z and the capital letters of the range 192 to 222 (all but the
  multiplication sign, 215) to the unit 32 above, and \<open>trim\<close> strips from both ends the
  units 9 to 13, 32 and 160 (tab, line feed, vertical tab, form feed, carriage return,
  space, no-break space).
\<close>

definition lower_unit :: "char \<Rightarrow> char" where
  "lower_unit c =
     (let n = (of_char c :: nat)
      in if (65 \<le> n \<and> n \<le> 90) \<or> (192 \<le> n \<and> n \<le> 222 \<and> n \<noteq> 215)
         then char_of (n + 32) else c)"

definition toLowerCase :: "string \<Rightarrow> string" where
  "toLowerCase s = map lower_unit s"

definition white_unit :: "char \<Rightarrow> bool" where
  "white_unit c = ((of_char c :: nat) \<in> set [9, 10, 11, 12, 13, 32, 160])"

definition trim :: "string \<Rightarrow> string" where
  "trim s = rev (dropWhile white_unit (rev (dropWhile white_unit s)))"

section \<open>Document store commands\<close>

text \<open>
  The user collection is a list in insertion order. The schema declares \<open>email\<close> with
  \<open>lowercase\<close> and \<open>trim\<close>, and the names and the phone number with \<open>trim\<close>: the setters
  run on the value of a query filter and on the fields of a new document, before the
  validators (required fields, a password of at least 8 characters) and the unique
  indexes decide whether \<open>save\<close> raises.
\<close>

definition findOne :: "env \<Rightarrow> string \<Rightarrow> world \<Rightarrow> fault + user option" where
  "findOne e em w =
     (if \<not> mongo_up e then Inl DbError
      else Inr (find (\<lambda>u. email u = toLowerCase (trim em)) (users w)))"

definition findById :: "env \<Rightarrow> uid \<Rightarrow> world \<Rightarrow> fault + user option" where
  "findById e i w =
     (if \<not> mongo_up e then Inl DbError
      else Inr (find (\<lambda>u. uid u = i) (users w)))"

record register_body =
  b_email :: string
  b_password :: string
  b_firstName :: string
  b_lastName :: string
  b_phoneNumber :: "string option"

text \<open>
  The validators see the fields as the setters left them; the password has no setter.
\<close>

definition schema_valid :: "register_body \<Rightarrow> bool" where
  "schema_valid b =
     (toLowerCase (trim (b_email b)) \<noteq> [] \<and> 8 \<le> length (b_password b) \<and>
      trim (b_firstName b) \<noteq> [] \<and> trim (b_lastName b) \<noteq> [])"

text \<open>
  \<open>new User({...})\<close> followed by \<open>save()\<close>: the driver's identifier, the setters, the
  schema defaults, validation, then the pre-save hook that replaces the password by its
  salted digest.
\<close>

definition new_User :: "env \<Rightarrow> register_body \<Rightarrow> user" where
  "new_User e b =
     \<lparr>uid = new_id e, email = toLowerCase (trim (b_email b)),
      password = Bcrypt (new_salt e) (b_password b),
      firstName = trim (b_firstName b), lastName = trim (b_lastName b),
      phoneNumber = map_option trim (b_phoneNumber b),
      isEmailVerified = False, isPhoneVerified = False, role = Customer\<rparr>"

definition save :: "env \<Rightarrow> register_body \<Rightarrow> world \<Rightarrow> fault + (user \<times> world)" where
  "save e b w =
     (if \<not> schema_valid b then Inl ValidationError
      else if \<not> mongo_up e then Inl DbError
      else if list_ex (\<lambda>u. uid u = new_id e \<or> email u = toLowerCase (trim (b_email b))) (users w)
      then Inl DbError
      else Inr (new_User e b, w\<lparr>users := users w @ [new_User e b]\<rparr>))"

fun set_verified :: "uid \<Rightarrow> user list \<Rightarrow> user list" where
  "set_verified i [] = []"
| "set_verified i (u # us) =
     (if uid u = i then u\<lparr>isEmailVerified := True\<rparr> # us else u # set_verified i us)"

text \<open>\<open>User.findByIdAndUpdate(id, { isEmailVerified: true })\<close>; no match is not an error.\<close>

definition findByIdAndUpdate :: "env \<Rightarrow> uid \<Rightarrow> world \<Rightarrow> fault + world" where
  "findByIdAndUpdate e i w =
     (if \<not> mongo_up e then Inl DbError
      else Inr (w\<lparr>users := set_verified i (users w)\<rparr>))"

definition sendVerificationEmail :: "env \<Rightarrow> string \<Rightarrow> token \<Rightarrow> world \<Rightarrow> fault + world" where
  "sendVerificationEmail e em t w =
     (if \<not> mail_up e then Inl MailError
      else Inr (w\<lparr>outbox := outbox w @ [(em, t)]\<rparr>))"

section \<open>The auth controller\<close>

text \<open>The text of a library's error is not in the source; the fault's name stands for it.\<close>

fun error_message :: "fault \<Rightarrow> string" where
  "error_message StoreError = ''StoreError''"
| "error_message DbError = ''DbError''"
| "error_message ValidationError = ''ValidationError''"
| "error_message MailError = ''MailError''"
| "error_message CastError = ''CastError''"

definition view :: "user \<Rightarrow> user_view" where
  "view u = \<lparr>v_id = uid u, v_email = email u, v_firstName = firstName u,
             v_lastName = lastName u, v_role = role u\<rparr>"

definition access_claims :: "user \<Rightarrow> claims" where
  "access_claims u = AccessClaims (uid u) (email u) (role u)"

definition register_failed :: "fault \<Rightarrow> response" where
  "register_failed f =
     \<lparr>status_code = 500, success = False, message = Some ''Internal server error'',
      error_text = Some (error_message f), data = None\<rparr>"

definition register :: "env \<Rightarrow> register_body \<Rightarrow> world \<Rightarrow> response \<times> world" where
  "register e body w =
     (case findOne e (b_email body) w of
        Inl f \<Rightarrow> (register_failed f, w)
      | Inr (Some existingUser) \<Rightarrow> (reply 400 False ''User already exists'', w)
      | Inr None \<Rightarrow>
     (case save e body w of
        Inl f \<Rightarrow> (register_failed f, w)
      | Inr (u, w1) \<Rightarrow>
     (let verificationToken =
            jwt_sign (VerifyClaims (uid u) (email u)) (JWT_SECRET e) (Hours 24) (clock e) in
      case redis_setEx e (Verify (uid u)) 86400 (Tok verificationToken) w1 of
        Inl f \<Rightarrow> (register_failed f, w1)
      | Inr w2 \<Rightarrow>
     (case sendVerificationEmail e (email u) verificationToken w2 of
        Inl f \<Rightarrow> (register_failed f, w2)
      | Inr w3 \<Rightarrow>
     (let accessToken = jwt_sign (access_claims u) (JWT_SECRET e) JWT_EXPIRES_IN (clock e);
          refreshToken =
            jwt_sign (RefreshClaims (uid u)) (JWT_SECRET e) REFRESH_TOKEN_EXPIRES_IN (clock e) in
      case redis_setEx e (Refresh (uid u)) (30 * 86400) (Tok refreshToken) w3 of
        Inl f \<Rightarrow> (register_failed f, w3)
      | Inr w4 \<Rightarrow>
          (\<lparr>status_code = 201, success = True,
            message = Some ''User registered successfully. Please verify your email.'',
            error_text = None,
            data = Some (Session (view u) accessToken refreshToken JWT_EXPIRES_IN)\<rparr>, w4))))))"

record login_body =
  l_email :: string
  l_password :: string

definition login :: "env \<Rightarrow> login_body \<Rightarrow> world \<Rightarrow> response \<times> world" where
  "login e body w =
     (case findOne e (l_email body) w of
        Inl f \<Rightarrow> (reply 500 False ''Internal server error'', w)
      | Inr None \<Rightarrow> (reply 401 False ''Invalid credentials'', w)
      | Inr (Some u) \<Rightarrow>
          if \<not> bcrypt_compare (l_password body) (password u)
          then (reply 401 False ''Invalid credentials'', w)
          else if \<not> isEmailVerified u
          then (reply 403 False ''Please verify your email first'', w)
          else
            (let accessToken = jwt_sign (access_claims u) (JWT_SECRET e) JWT_EXPIRES_IN (clock e);
                 refreshToken =
                   jwt_sign (RefreshClaims (uid u)) (JWT_SECRET e) REFRESH_TOKEN_EXPIRES_IN (clock e) in
             case redis_setEx e (Refresh (uid u)) (30 * 86400) (Tok refreshToken) w of
               Inl f \<Rightarrow> (reply 500 False ''Internal server error'', w)
             | Inr w1 \<Rightarrow>
                 (\<lparr>status_code = 200, success = True, message = None, error_text = None,
                   data = Some (Session (view u) accessToken refreshToken JWT_EXPIRES_IN)\<rparr>, w1)))"

text \<open>
  \<open>logout\<close> reads \<open>req.user\<close>, which \<open>authenticate\<close> sets; destructuring a missing one
  raises, and the handler answers 500.
\<close>

definition logout :: "env \<Rightarrow> claims option \<Rightarrow> world \<Rightarrow> response \<times> world" where
  "logout e req_user w =
     (case req_user of
        None \<Rightarrow> (reply 500 False ''Internal server error'', w)
      | Some c \<Rightarrow>
          (case redis_del e (Refresh (userId c)) w of
             Inl f \<Rightarrow> (reply 500 False ''Internal server error'', w)
           | Inr w1 \<Rightarrow> (reply 200 True ''Logged out successfully'', w1)))"

text \<open>A request field is falsy when it is missing or the empty string.\<close>

fun falsy :: "token option \<Rightarrow> bool" where
  "falsy None = True"
| "falsy (Some (Opaque s)) = (s = [])"
| "falsy (Some (Jwt p i x k)) = False"

text \<open>\<open>storedToken !== token\<close>: the store's answer against the presented string.\<close>

definition differs :: "rvalue option \<Rightarrow> token \<Rightarrow> bool" where
  "differs storedToken t = (storedToken \<noteq> Some (Tok t))"

definition refreshToken :: "env \<Rightarrow> token option \<Rightarrow> world \<Rightarrow> response \<times> world" where
  "refreshToken e body_refreshToken w =
     (case body_refreshToken of
        None \<Rightarrow> (reply 400 False ''Refresh token is required'', w)
      | Some t \<Rightarrow>
     (if falsy (Some t) then (reply 400 False ''Refresh token is required'', w)
      else
        (case jwt_verify t (JWT_SECRET e) (clock e) of
           Inl f \<Rightarrow> (reply 401 False ''Invalid refresh token'', w)
         | Inr decoded \<Rightarrow>
        (case redis_get e (Refresh (userId decoded)) w of
           Inl f \<Rightarrow> (reply 401 False ''Invalid refresh token'', w)
         | Inr storedToken \<Rightarrow>
             if differs storedToken t
             then (reply 401 False ''Invalid refresh token'', w)
             else
               (case findById e (userId decoded) w of
                  Inl f \<Rightarrow> (reply 401 False ''Invalid refresh token'', w)
                | Inr None \<Rightarrow> (reply 404 False ''User not found'', w)
                | Inr (Some u) \<Rightarrow>
                    (let newAccessToken =
                           jwt_sign (access_claims u) (JWT_SECRET e) JWT_EXPIRES_IN (clock e) in
                     (\<lparr>status_code = 200, success = True, message = None, error_text = None,
                       data = Some (Renewed newAccessToken JWT_EXPIRES_IN)\<rparr>, w)))))))"

definition verifyEmail :: "env \<Rightarrow> token option \<Rightarrow> world \<Rightarrow> response \<times> world" where
  "verifyEmail e query_token w =
     (case query_token of
        None \<Rightarrow> (reply 400 False ''Verification token is required'', w)
      | Some t \<Rightarrow>
     (if falsy (Some t) then (reply 400 False ''Verification token is required'', w)
      else
        (case jwt_verify t (JWT_SECRET e) (clock e) of
           Inl f \<Rightarrow> (reply 400 False ''Invalid or expired verification token'', w)
         | Inr decoded \<Rightarrow>
        (case redis_get e (Verify (userId decoded)) w of
           Inl f \<Rightarrow> (reply 400 False ''Invalid or expired verification token'', w)
         | Inr storedToken \<Rightarrow>
             if differs storedToken t
             then (reply 400 False ''Invalid or expired verification token'', w)
             else
               (case findByIdAndUpdate e (userId decoded) w of
                  Inl f \<Rightarrow> (reply 400 False ''Invalid or expired verification token'', w)
                | Inr w1 \<Rightarrow>
               (case redis_del e (Verify (userId decoded)) w1 of
                  Inl f \<Rightarrow> (reply 400 False ''Invalid or expired verification token'', w1)
                | Inr w2 \<Rightarrow> (reply 200 True ''Email verified successfully'', w2)))))))"

section \<open>Numbers\<close>

text \<open>
  A JavaScript number is a binary64 value: \<open>Finite x\<close> carries the exact value of a finite
  one (negative zero is not told from zero), the other three are its infinities and
  not-a-number. \<open>to_double\<close> rounds an exact value to the nearest binary64 value, ties to
  the even significand: below \<open>2 ^ -1022\<close> the spacing stays \<open>2 ^ -1074\<close>, and a result
  of \<open>2 ^ 1024\<close> or more is an infinity. The sum of two numbers is the rounded exact sum.
\<close>

datatype number = Finite rat | PosInf | NegInf | NaN

function bits :: "int \<Rightarrow> int" where
  "bits n = (if n \<le> 0 then 0 else 1 + bits (n div 2))"
  by pat_completeness auto
termination
  by (relation "measure nat") auto

declare bits.simps [simp del]

definition pow2 :: "int \<Rightarrow> rat" where
  "pow2 k = (if 0 \<le> k then 2 ^ nat k else 1 / 2 ^ nat (- k))"

text \<open>For \<open>x > 0\<close>, the \<open>k\<close> with \<open>2 ^ k \<le> x < 2 ^ (k + 1)\<close>.\<close>

definition ilog2 :: "rat \<Rightarrow> int" where
  "ilog2 x =
     (case quotient_of x of
        (a, b) \<Rightarrow>
          (let k = bits a - bits b
           in if pow2 k \<le> x then k else k - 1))"

definition to_double :: "rat \<Rightarrow> number" where
  "to_double x =
     (if x = 0 then Finite 0
      else
        (let a = \<bar>x\<bar>;
             e = max (ilog2 a) (- 1022);
             q = pow2 (e - 52);
             n = \<lfloor>a / q\<rfloor>;
             r = a / q - of_int n;
             m = (if r < 1 / 2 then n
                  else if 1 / 2 < r then n + 1
                  else if even n then n else n + 1);
             y = of_int m * q
         in if pow2 1024 \<le> y then (if 0 < x then PosInf else NegInf)
            else Finite (if 0 < x then y else - y)))"

fun js_add :: "number \<Rightarrow> number \<Rightarrow> number" where
  "js_add (Finite a) (Finite b) = to_double (a + b)"
| "js_add NaN y = NaN"
| "js_add x NaN = NaN"
| "js_add PosInf NegInf = NaN"
| "js_add NegInf PosInf = NaN"
| "js_add PosInf y = PosInf"
| "js_add NegInf y = NegInf"
| "js_add x PosInf = PosInf"
| "js_add x NegInf = NegInf"

fun js_neg :: "number \<Rightarrow> number" where
  "js_neg (Finite a) = Finite (- a)"
| "js_neg PosInf = NegInf"
| "js_neg NegInf = PosInf"
| "js_neg NaN = NaN"

text \<open>\<open>x <= y\<close> and \<open>x < y\<close>: every comparison with not-a-number is false.\<close>

fun js_le :: "number \<Rightarrow> number \<Rightarrow> bool" where
  "js_le NaN y = False"
| "js_le x NaN = False"
| "js_le NegInf y = True"
| "js_le x PosInf = True"
| "js_le (Finite a) (Finite b) = (a \<le> b)"
| "js_le PosInf y = False"
| "js_le x NegInf = False"

fun js_lt :: "number \<Rightarrow> number \<Rightarrow> bool" where
  "js_lt NaN y = False"
| "js_lt x NaN = False"
| "js_lt (Finite a) (Finite b) = (a < b)"
| "js_lt PosInf y = False"
| "js_lt x NegInf = False"
| "js_lt NegInf y = True"
| "js_lt x PosInf = True"

section \<open>The product service: inventory\<close>

text \<open>
  A product document: the paths \<open>updateInventory\<close> reads and writes and the other paths
  the schema puts a validator on. A required string that is missing is modelled by the
  empty string, which the validator refuses as well.
\<close>

record product =
  pid :: string
  sku :: string
  name :: string
  description :: string
  shortDescription :: "string option"
  price :: "number option"
  compareAtPrice :: "number option"
  costPrice :: "number option"
  quantity :: number
  categoryId :: "string option"
  image_urls :: "string list"
  slug :: string
  variant_skus :: "string list"
  status :: string

datatype operation = add | subtract

record inventory_event =
  ev_productId :: string
  ev_sku :: string
  ev_newQuantity :: number
  ev_status :: string

record shop =
  products :: "product list"
  cache :: "string \<rightharpoonup> string"
  published :: "(string \<times> inventory_event) list"

record shop_env =
  shop_mongo_up :: bool
  shop_redis_up :: bool
  queue_up :: bool

text \<open>\<open>min: 0\<close> on a number path: the value, when there is one, is at least 0.\<close>

fun min0 :: "number option \<Rightarrow> bool" where
  "min0 None = True"
| "min0 (Some x) = js_le (Finite 0) x"

text \<open>
  The schema's validators, which \<open>save()\<close> runs on the paths of a loaded document:
  required paths, minima, the length bound and the status enumeration.
\<close>

definition product_valid :: "product \<Rightarrow> bool" where
  "product_valid p =
     (sku p \<noteq> [] \<and> name p \<noteq> [] \<and> description p \<noteq> [] \<and>
      (case shortDescription p of None \<Rightarrow> True | Some d \<Rightarrow> length d \<le> 200) \<and>
      price p \<noteq> None \<and> min0 (price p) \<and> min0 (compareAtPrice p) \<and> min0 (costPrice p) \<and>
      min0 (Some (quantity p)) \<and> categoryId p \<noteq> None \<and>
      list_all (\<lambda>u. u \<noteq> []) (image_urls p) \<and> slug p \<noteq> [] \<and>
      list_all (\<lambda>k. k \<noteq> []) (variant_skus p) \<and>
      status p \<in> set [''draft'', ''active'', ''archived'', ''out_of_stock''])"

fun replace_product :: "product \<Rightarrow> product list \<Rightarrow> product list" where
  "replace_product p [] = []"
| "replace_product p (q # qs) =
     (if pid q = pid p then p # qs else q # replace_product p qs)"

text \<open>
  \<open>Product.findByIdAndUpdate(id, { $inc: { quantity: n } }, { new: true })\<close>: the update
  is cast (not-a-number is refused) and applied by the store without the validators.
\<close>

definition inc_quantity ::
  "shop_env \<Rightarrow> string \<Rightarrow> number \<Rightarrow> shop \<Rightarrow> fault + (product option \<times> shop)" where
  "inc_quantity e productId n s =
     (if n = NaN then Inl CastError
      else if \<not> shop_mongo_up e then Inl DbError
      else case find (\<lambda>p. pid p = productId) (products s) of
             None \<Rightarrow> Inr (None, s)
           | Some p \<Rightarrow>
               (let p' = p\<lparr>quantity := js_add (quantity p) n\<rparr>
                in Inr (Some p', s\<lparr>products := replace_product p' (products s)\<rparr>)))"

text \<open>\<open>product.save()\<close> validates the document and writes it only when it passes.\<close>

definition product_save :: "shop_env \<Rightarrow> product \<Rightarrow> shop \<Rightarrow> fault + shop" where
  "product_save e p s =
     (if \<not> product_valid p then Inl ValidationError
      else if \<not> shop_mongo_up e then Inl DbError
      else Inr (s\<lparr>products := replace_product p (products s)\<rparr>))"

definition cache_del :: "shop_env \<Rightarrow> string \<Rightarrow> shop \<Rightarrow> fault + shop" where
  "cache_del e k s =
     (if \<not> shop_redis_up e then Inl StoreError
      else Inr (s\<lparr>cache := (cache s)(k := None)\<rparr>))"

definition publishMessage :: "shop_env \<Rightarrow> string \<Rightarrow> inventory_event \<Rightarrow> shop \<Rightarrow> fault + shop" where
  "publishMessage e topic ev s =
     (if \<not> queue_up e then Inl StoreError
      else Inr (s\<lparr>published := published s @ [(topic, ev)]\<rparr>))"

text \<open>
  The method rethrows what it catches: the result is the fault or the returned product,
  next to the state the collaborators are left in.
\<close>

definition updateInventory ::
  "shop_env \<Rightarrow> string \<Rightarrow> number \<Rightarrow> operation \<Rightarrow> shop \<Rightarrow> (fault + product option) \<times> shop" where
  "updateInventory e productId qty op s =
     (let n = (if op = add then qty else js_neg qty) in
      case inc_quantity e productId n s of
        Inl f \<Rightarrow> (Inl f, s)
      | Inr (None, s1) \<Rightarrow> (Inr None, s1)
      | Inr (Some p, s1) \<Rightarrow>
     (case (if js_le (quantity p) (Finite 0) \<and> status p \<noteq> ''out_of_stock''
            then (case product_save e (p\<lparr>status := ''out_of_stock''\<rparr>) s1 of
                    Inl f \<Rightarrow> Inl f
                  | Inr s2 \<Rightarrow> Inr (p\<lparr>status := ''out_of_stock''\<rparr>, s2))
            else if js_lt (Finite 0) (quantity p) \<and> status p = ''out_of_stock''
            then (case product_save e (p\<lparr>status := ''active''\<rparr>) s1 of
                    Inl f \<Rightarrow> Inl f
                  | Inr s2 \<Rightarrow> Inr (p\<lparr>status := ''active''\<rparr>, s2))
            else Inr (p, s1)) of
        Inl f \<Rightarrow> (Inl f, s1)
      | Inr (p2, s2) \<Rightarrow>
     (case cache_del e (''product:'' @ productId) s2 of
        Inl f \<Rightarrow> (Inl f, s2)
      | Inr s3 \<Rightarrow>
     (case publishMessage e ''inventory.updated''
             \<lparr>ev_productId = pid p2, ev_sku = sku p2,
              ev_newQuantity = quantity p2, ev_status = status p2\<rparr> s3 of
        Inl f \<Rightarrow> (Inl f, s3)
      | Inr s4 \<Rightarrow> (Inr (Some p2), s4)))))"

section \<open>Runs and sample states\<close>

definition throttled :: "unit outcome" where
  "throttled = Reply (reply 429 False ''Too many requests, please try again later'')"

text \<open>The limiter serving one request after another, at the given clock readings.\<close>

fun hits ::
  "int \<Rightarrow> nat \<Rightarrow> env \<Rightarrow> string \<Rightarrow> string \<Rightarrow> nat list \<Rightarrow> world \<Rightarrow> unit outcome list \<times> world" where
  "hits limit windowMs e ip path [] w = ([], w)"
| "hits limit windowMs e ip path (t # ts) w =
     (case rateLimiter limit windowMs (e\<lparr>clock := t\<rparr>) ip path w of
        (r, w1) \<Rightarrow>
          (case hits limit windowMs e ip path ts w1 of
             (rs, w2) \<Rightarrow> (r # rs, w2)))"

definition demo_env :: env where
  "demo_env = \<lparr>clock = 0, JWT_SECRET = ''your-secret-key'', mongo_up = True, redis_up = True,
               mail_up = True, new_id = ''u3'', new_salt = 7\<rparr>"

definition env_at :: "nat \<Rightarrow> env" where
  "env_at t = demo_env\<lparr>clock := t\<rparr>"

definition empty_world :: world where
  "empty_world = \<lparr>users = [], redis = Map.empty, outbox = []\<rparr>"

definition alice :: user where
  "alice = \<lparr>uid = ''u1'', email = ''alice@example.com'', password = Bcrypt 3 ''correct horse'',
            firstName = ''Alice'', lastName = ''Liddell'', phoneNumber = None,
            isEmailVerified = True, isPhoneVerified = False, role = Customer\<rparr>"

definition bob :: user where
  "bob = \<lparr>uid = ''u2'', email = ''bob@example.com'', password = Bcrypt 4 ''battery staple'',
          firstName = ''Bob'', lastName = ''Stone'', phoneNumber = None,
          isEmailVerified = False, isPhoneVerified = False, role = Customer\<rparr>"

definition two_users :: world where
  "two_users = \<lparr>users = [alice, bob], redis = Map.empty, outbox = []\<rparr>"

definition alice_login :: login_body where
  "alice_login = \<lparr>l_email = ''alice@example.com'', l_password = ''correct horse''\<rparr>"

definition alice_typo :: login_body where
  "alice_typo = \<lparr>l_email = ''alice@example.com'', l_password = ''correct hose''\<rparr>"

definition bob_login :: login_body where
  "bob_login = \<lparr>l_email = ''bob@example.com'', l_password = ''battery staple''\<rparr>"

definition stranger_login :: login_body where
  "stranger_login = \<lparr>l_email = ''mallory@example.com'', l_password = ''correct horse''\<rparr>"

definition alice_access :: "nat \<Rightarrow> token" where
  "alice_access t = jwt_sign (access_claims alice) ''your-secret-key'' JWT_EXPIRES_IN t"

definition alice_refresh :: "nat \<Rightarrow> token" where
  "alice_refresh t = jwt_sign (RefreshClaims ''u1'') ''your-secret-key'' REFRESH_TOKEN_EXPIRES_IN t"

definition alice_session :: "nat \<Rightarrow> response" where
  "alice_session t =
     \<lparr>status_code = 200, success = True, message = None, error_text = None,
      data = Some (Session (view alice) (alice_access t) (alice_refresh t) JWT_EXPIRES_IN)\<rparr>"

text \<open>Alice logs in at second 100; then again, either in the same second or at 150.\<close>

definition logged_in :: world where
  "logged_in = snd (login (env_at 100) alice_login two_users)"

definition logged_in_again :: world where
  "logged_in_again = snd (login (env_at 100) alice_login logged_in)"

definition logged_in_later :: world where
  "logged_in_later = snd (login (env_at 150) alice_login logged_in)"

definition logged_out :: world where
  "logged_out = snd (logout (env_at 200) (Some (access_claims alice)) logged_in)"

definition carol_body :: register_body where
  "carol_body = \<lparr>b_email = '' Carol@Example.COM '', b_password = ''tr0ub4dor&3'',
                 b_firstName = ''Carol '', b_lastName = ''Shaw'', b_phoneNumber = None\<rparr>"

definition alice_again_body :: register_body where
  "alice_again_body = \<lparr>b_email = ''Alice@Example.COM'', b_password = ''another secret'',
                       b_firstName = ''Alice'', b_lastName = ''Other'', b_phoneNumber = None\<rparr>"

definition blank_name_body :: register_body where
  "blank_name_body = \<lparr>b_email = ''dave@example.com'', b_password = ''long enough'',
                      b_firstName = '' '', b_lastName = ''Grey'', b_phoneNumber = None\<rparr>"

definition carol :: user where
  "carol = \<lparr>uid = ''u3'', email = ''carol@example.com'', password = Bcrypt 7 ''tr0ub4dor&3'',
            firstName = ''Carol'', lastName = ''Shaw'', phoneNumber = None,
            isEmailVerified = False, isPhoneVerified = False, role = Customer\<rparr>"

definition carol_verify :: token where
  "carol_verify =
     jwt_sign (VerifyClaims ''u3'' ''carol@example.com'') ''your-secret-key'' (Hours 24) 0"

definition registered :: world where
  "registered = snd (register demo_env carol_body two_users)"

text \<open>A refresh token is on record for an account whose document is gone.\<close>

definition ghost_refresh :: token where
  "ghost_refresh = jwt_sign (RefreshClaims ''u9'') ''your-secret-key'' REFRESH_TOKEN_EXPIRES_IN 0"

definition ghost_world :: world where
  "ghost_world =
     \<lparr>users = [alice], redis = [Refresh ''u9'' \<mapsto> (Tok ghost_refresh, Some 2592000)], outbox = []\<rparr>"

definition wrong_type_world :: world where
  "wrong_type_world =
     \<lparr>users = [], redis = [rate_key ''10.0.0.1'' ''/login'' \<mapsto> (Tok (Opaque ''x''), None)],
      outbox = []\<rparr>"

definition shop_env_up :: shop_env where
  "shop_env_up = \<lparr>shop_mongo_up = True, shop_redis_up = True, queue_up = True\<rparr>"

definition kettle :: product where
  "kettle = \<lparr>pid = ''p1'', sku = ''PROD-1'', name = ''Kettle'', description = ''Boils water'',
             shortDescription = None, price = Some (Finite 30), compareAtPrice = None,
             costPrice = None, quantity = Finite 5, categoryId = Some ''c1'', image_urls = [],
             slug = ''kettle'', variant_skus = [], status = ''active''\<rparr>"

definition lamp :: product where
  "lamp = \<lparr>pid = ''p2'', sku = ''PROD-2'', name = ''Lamp'', description = ''Gives light'',
           shortDescription = None, price = Some (Finite 12), compareAtPrice = None,
           costPrice = None, quantity = Finite 0, categoryId = Some ''c1'', image_urls = [],
           slug = ''lamp'', variant_skus = [], status = ''out_of_stock''\<rparr>"

definition demo_shop :: shop where
  "demo_shop = \<lparr>products = [kettle, lamp], cache = Map.empty, published = []\<rparr>"

text \<open>The setters on the sample strings.\<close>

lemma sample_text:
  "toLowerCase (trim ''alice@example.com'') = ''alice@example.com''"
  "toLowerCase (trim ''bob@example.com'') = ''bob@example.com''"
  "toLowerCase (trim ''mallory@example.com'') = ''mallory@example.com''"
  "toLowerCase (trim ''dave@example.com'') = ''dave@example.com''"
  "toLowerCase (trim ''Alice@Example.COM'') = ''alice@example.com''"
  "toLowerCase (trim '' Carol@Example.COM '') = ''carol@example.com''"
  "trim ''Carol '' = ''Carol''" "trim ''Shaw'' = ''Shaw''" "trim ''Alice'' = ''Alice''"
  "trim ''Other'' = ''Other''" "trim ''Grey'' = ''Grey''" "trim '' '' = []"
  by code_simp+

lemmas sample_defs = demo_env_def env_at_def empty_world_def alice_def bob_def two_users_def
  alice_login_def alice_typo_def bob_login_def stranger_login_def alice_access_def
  alice_refresh_def alice_session_def logged_in_def logged_in_again_def logged_in_later_def
  logged_out_def carol_body_def alice_again_body_def blank_name_body_def carol_def
  carol_verify_def registered_def
  ghost_refresh_def ghost_world_def wrong_type_world_def shop_env_up_def kettle_def lamp_def
  demo_shop_def

lemmas store_defs = redis_get_def redis_setEx_def redis_del_def redis_incr_def redis_expire_def
  lookup_def live_def findOne_def findById_def findByIdAndUpdate_def save_def schema_valid_def
  new_User_def sendVerificationEmail_def sample_text

lemmas handler_defs = register_def login_def logout_def refreshToken_def verifyEmail_def
  authenticate_def rateLimiter_def rate_key_def differs_def jwt_sign_def access_claims_def
  view_def reply_def register_failed_def throttled_def JWT_EXPIRES_IN_def
  REFRESH_TOKEN_EXPIRES_IN_def Let_def

section \<open>Logout and revocation\<close>

lemma logout_keeps_blacklist:
  "redis (snd (logout e u w)) (Blacklist t) = redis w (Blacklist t)"
  by (simp add: logout_def redis_del_def split: option.splits)

lemma authenticate_reads_blacklist:
  "(\<And>t. redis w' (Blacklist t) = redis w (Blacklist t)) \<Longrightarrow>
   authenticate e h w' = authenticate e h w"
  by (simp add: authenticate_def redis_get_def lookup_def
      split: option.splits auth_header.splits sum.splits jwt_error.splits)

text \<open>
  \<open>logout\<close> only deletes the subject's refresh key, and \<open>authenticate\<close> only reads
  blacklist keys: whatever \<open>authenticate\<close> answered before a logout it answers after it.
\<close>

lemma logout_does_not_revoke:
  "authenticate e' h (snd (logout e u w)) = authenticate e' h w"
  by (rule authenticate_reads_blacklist) (rule logout_keeps_blacklist)

text \<open>The reading side is in place: a token whose blacklist key holds a value is refused.\<close>

lemma authenticate_rejects_blacklisted:
  assumes "jwt_verify tok (JWT_SECRET e) (clock e) = Inr decoded"
    and "redis_get e (Blacklist tok) w = Inr v" "truthy v"
  shows "authenticate e (Some (Bearer tok)) w = Reply (reply 401 False ''Token has been invalidated'')"
  using assms by (simp add: authenticate_def)

text \<open>
  Claim C1: after a subject logs out presenting an access token, authenticating that
  same token is to fail with 401, because logout blacklists the token. The handler does
  not do so. Alice logs in at second 100 and is issued an access token; at second 200 the
  token authenticates and she logs out with it (answer 200); at second 300 the same
  token, unexpired, still authenticates and the request goes on with her claims.
\<close>

theorem logout_keeps_access_token_valid:
  "fst (login (env_at 100) alice_login two_users) = alice_session 100 \<and>
   authenticate (env_at 200) (Some (Bearer (alice_access 100))) logged_in =
     Next (access_claims alice) \<and>
   fst (logout (env_at 200) (Some (access_claims alice)) logged_in) =
     reply 200 True ''Logged out successfully'' \<and>
   authenticate (env_at 300) (Some (Bearer (alice_access 100))) logged_out =
     Next (access_claims alice)"
  by (simp add: sample_defs handler_defs store_defs)

section \<open>Refresh tokens\<close>

lemma login_success:
  assumes "login e b w = (r, w')" "data r = Some (Session v a rt sp)"
  shows "rt = jwt_sign (RefreshClaims (v_id v)) (JWT_SECRET e) REFRESH_TOKEN_EXPIRES_IN (clock e) \<and>
         redis w' = (redis w)(Refresh (v_id v) \<mapsto> (Tok rt, Some (clock e + 30 * 86400)))"
  using assms
  by (auto simp: login_def reply_def Let_def redis_setEx_def view_def
      split: sum.splits option.splits if_splits)

text \<open>
  Claim C2, as stated, fails when the two logins fall in the same clock second: a token
  is determined by subject, key and issue second, so the second login stores the very
  token the first one issued, and a refresh presenting it is answered 200.
\<close>

theorem same_second_logins_share_refresh_token:
  "fst (login (env_at 100) alice_login two_users) = alice_session 100 \<and>
   fst (login (env_at 100) alice_login logged_in) = alice_session 100 \<and>
   status_code (fst (refreshToken (env_at 101) (Some (alice_refresh 100)) logged_in_again)) = 200"
  by (simp add: sample_defs handler_defs store_defs)

text \<open>
  Claim C2, amended: a refresh is answered 200 only if the presented token is exactly the
  value stored under the subject's refresh key; and after two successful logins of the
  same subject at different clock seconds, a refresh presenting the first login's refresh
  token is answered 401 ``Invalid refresh token'', whenever it is made and whatever else
  holds, leaving the state as it was.
\<close>

theorem refresh_needs_current_token:
  "(refreshToken e (Some t) w = (r, w') \<and> status_code r = 200 \<longrightarrow>
      (\<exists>decoded. jwt_verify t (JWT_SECRET e) (clock e) = Inr decoded \<and>
         redis_get e (Refresh (userId decoded)) w = Inr (Some (Tok t)))) \<and>
   (login e1 b1 u0 = (r1, u1) \<and> data r1 = Some (Session v1 a1 rt1 s1) \<and>
    login e2 b2 u1 = (r2, u2) \<and> data r2 = Some (Session v2 a2 rt2 s2) \<and>
    v_id v1 = v_id v2 \<and> clock e1 \<noteq> clock e2 \<longrightarrow>
      refreshToken e3 (Some rt1) u2 = (reply 401 False ''Invalid refresh token'', u2))"
proof (intro conjI impI)
  assume "refreshToken e (Some t) w = (r, w') \<and> status_code r = 200"
  then show "\<exists>decoded. jwt_verify t (JWT_SECRET e) (clock e) = Inr decoded \<and>
         redis_get e (Refresh (userId decoded)) w = Inr (Some (Tok t))"
    by (auto simp: refreshToken_def reply_def differs_def split: sum.splits option.splits if_splits)
next
  assume a: "login e1 b1 u0 = (r1, u1) \<and> data r1 = Some (Session v1 a1 rt1 s1) \<and>
    login e2 b2 u1 = (r2, u2) \<and> data r2 = Some (Session v2 a2 rt2 s2) \<and>
    v_id v1 = v_id v2 \<and> clock e1 \<noteq> clock e2"
  from a have one:
    "rt1 = jwt_sign (RefreshClaims (v_id v1)) (JWT_SECRET e1) REFRESH_TOKEN_EXPIRES_IN (clock e1)"
    using login_success by blast
  from a have two:
    "rt2 = jwt_sign (RefreshClaims (v_id v2)) (JWT_SECRET e2) REFRESH_TOKEN_EXPIRES_IN (clock e2)"
    and stored: "redis u2 = (redis u1)(Refresh (v_id v2) \<mapsto> (Tok rt2, Some (clock e2 + 30 * 86400)))"
    using login_success by blast+
  have same: "v_id v1 = v_id v2" and ck: "clock e1 \<noteq> clock e2"
    using a by simp_all
  show "refreshToken e3 (Some rt1) u2 = (reply 401 False ''Invalid refresh token'', u2)"
    using ck stored same unfolding one two
    by (simp add: refreshToken_def jwt_sign_def redis_get_def lookup_def differs_def
        split: sum.splits option.splits)
qed

theorem refresh_needs_current_token_witness:
  "status_code (fst (refreshToken (env_at 101) (Some (alice_refresh 100)) logged_in)) = 200 \<and>
   redis_get (env_at 101) (Refresh ''u1'') logged_in = Inr (Some (Tok (alice_refresh 100))) \<and>
   login (env_at 100) alice_login two_users = (alice_session 100, logged_in) \<and>
   login (env_at 150) alice_login logged_in = (alice_session 150, logged_in_later) \<and>
   clock (env_at 100) \<noteq> clock (env_at 150) \<and>
   refreshToken (env_at 151) (Some (alice_refresh 100)) logged_in_later =
     (reply 401 False ''Invalid refresh token'', logged_in_later)"
proof -
  have l1: "login (env_at 100) alice_login two_users = (alice_session 100, logged_in)"
    by (simp add: sample_defs handler_defs store_defs)
  have l2: "login (env_at 150) alice_login logged_in = (alice_session 150, logged_in_later)"
    by (simp add: sample_defs handler_defs store_defs)
  have d1: "data (alice_session 100) =
      Some (Session (view alice) (alice_access 100) (alice_refresh 100) JWT_EXPIRES_IN)"
    and d2: "data (alice_session 150) =
      Some (Session (view alice) (alice_access 150) (alice_refresh 150) JWT_EXPIRES_IN)"
    by (simp_all add: alice_session_def)
  have ck: "clock (env_at 100) \<noteq> clock (env_at 150)"
    by (simp add: env_at_def)
  have ok: "status_code (fst (refreshToken (env_at 101) (Some (alice_refresh 100)) logged_in)) = 200"
    by (simp add: sample_defs handler_defs store_defs)
  obtain r w' where rw: "refreshToken (env_at 101) (Some (alice_refresh 100)) logged_in = (r, w')"
    by (cases "refreshToken (env_at 101) (Some (alice_refresh 100)) logged_in")
  with ok have r200: "status_code r = 200" by simp
  note both = refresh_needs_current_token
    [where e = "env_at 101" and t = "alice_refresh 100" and w = logged_in and r = r and w' = w'
       and ?e1.0 = "env_at 100" and ?b1.0 = alice_login and ?u0.0 = two_users
       and ?r1.0 = "alice_session 100" and ?u1.0 = logged_in and ?v1.0 = "view alice"
       and ?a1.0 = "alice_access 100" and ?rt1.0 = "alice_refresh 100" and ?s1.0 = JWT_EXPIRES_IN
       and ?e2.0 = "env_at 150" and ?b2.0 = alice_login and ?r2.0 = "alice_session 150"
       and ?u2.0 = logged_in_later and ?v2.0 = "view alice" and ?a2.0 = "alice_access 150"
       and ?rt2.0 = "alice_refresh 150" and ?s2.0 = JWT_EXPIRES_IN and ?e3.0 = "env_at 151"]
  from both rw r200 have
    "\<exists>decoded. jwt_verify (alice_refresh 100) (JWT_SECRET (env_at 101)) (clock (env_at 101)) = Inr decoded \<and>
       redis_get (env_at 101) (Refresh (userId decoded)) logged_in = Inr (Some (Tok (alice_refresh 100)))"
    by blast
  then have stored:
    "redis_get (env_at 101) (Refresh ''u1'') logged_in = Inr (Some (Tok (alice_refresh 100)))"
    by (auto simp: alice_refresh_def jwt_sign_def split: if_splits)
  from both l1 l2 d1 d2 ck have
    "refreshToken (env_at 151) (Some (alice_refresh 100)) logged_in_later =
       (reply 401 False ''Invalid refresh token'', logged_in_later)"
    by blast
  with ok stored l1 l2 ck show ?thesis by blast
qed

section \<open>The rate limiter\<close>

lemma rateLimiter_first:
  assumes "redis_up e" "lookup (clock e) (redis w) (rate_key ip path) = None" "0 < secs"
  shows "rateLimiter limit (1000 * secs) e ip path w =
           (if 1 \<le> limit then Next () else throttled,
            w\<lparr>redis := (redis w)(rate_key ip path \<mapsto> (Num 1, Some (clock e + secs)))\<rparr>)"
  using assms
  by (simp add: rateLimiter_def redis_incr_def redis_expire_def lookup_def live_def throttled_def)

lemma rateLimiter_again:
  assumes "redis_up e" "redis w (rate_key ip path) = Some (Num n, Some d)" "clock e < d" "1 \<le> n"
  shows "rateLimiter limit windowMs e ip path w =
           (if n + 1 \<le> limit then Next () else throttled,
            w\<lparr>redis := (redis w)(rate_key ip path \<mapsto> (Num (n + 1), Some d))\<rparr>)"
  using assms
  by (simp add: rateLimiter_def redis_incr_def lookup_def live_def throttled_def)

lemma upt_Suc_shift: "[0..<Suc m] = 0 # map Suc [0..<m]"
  by (simp only: upt_conv_Cons map_Suc_upt zero_less_Suc)

lemma hits_within:
  assumes "redis_up e" "redis w (rate_key ip path) = Some (Num n, Some d)" "1 \<le> n"
    and "\<forall>t\<in>set ts. t < d"
  shows "fst (hits limit windowMs e ip path ts w) =
           map (\<lambda>i. if n + 1 + int i \<le> limit then Next () else throttled) [0..<length ts] \<and>
         redis (snd (hits limit windowMs e ip path ts w)) (rate_key ip path) =
           Some (Num (n + int (length ts)), Some d)"
  using assms
proof (induction ts arbitrary: w n)
  case Nil
  then show ?case by simp
next
  case (Cons t ts)
  let ?k = "rate_key ip path"
  let ?w1 = "w\<lparr>redis := (redis w)(?k \<mapsto> (Num (n + 1), Some d))\<rparr>"
  have step: "rateLimiter limit windowMs (e\<lparr>clock := t\<rparr>) ip path w =
                (if n + 1 \<le> limit then Next () else throttled, ?w1)"
    using Cons.prems by (intro rateLimiter_again) auto
  have ih: "fst (hits limit windowMs e ip path ts ?w1) =
              map (\<lambda>i. if (n + 1) + 1 + int i \<le> limit then Next () else throttled) [0..<length ts] \<and>
            redis (snd (hits limit windowMs e ip path ts ?w1)) ?k =
              Some (Num ((n + 1) + int (length ts)), Some d)"
    using Cons.prems by (intro Cons.IH) auto
  obtain rs w2 where h: "hits limit windowMs e ip path ts ?w1 = (rs, w2)"
    by (cases "hits limit windowMs e ip path ts ?w1")
  have whole: "hits limit windowMs e ip path (t # ts) w =
                 ((if n + 1 \<le> limit then Next () else throttled) # rs, w2)"
    by (simp add: step h)
  have rs: "rs = map (\<lambda>i. if n + 1 + int (Suc i) \<le> limit then Next () else throttled) [0..<length ts]"
    using ih h by (simp add: add.assoc add.commute)
  have "fst (hits limit windowMs e ip path (t # ts) w) =
          map (\<lambda>i. if n + 1 + int i \<le> limit then Next () else throttled) [0..<Suc (length ts)]"
    unfolding whole upt_Suc_shift rs by (simp add: o_def)
  moreover have "redis (snd (hits limit windowMs e ip path (t # ts) w)) ?k =
          Some (Num (n + int (Suc (length ts))), Some d)"
    using ih h whole by (simp add: add.assoc add.commute)
  ultimately show ?case by simp
qed

lemma hits_append:
  "hits limit windowMs e ip path (xs @ ys) w =
     (fst (hits limit windowMs e ip path xs w) @
        fst (hits limit windowMs e ip path ys (snd (hits limit windowMs e ip path xs w))),
      snd (hits limit windowMs e ip path ys (snd (hits limit windowMs e ip path xs w))))"
  by (induction xs arbitrary: w) (auto split: prod.splits)

lemma hits_single:
  "fst (hits limit windowMs e ip path [t] w) =
     [fst (rateLimiter limit windowMs (e\<lparr>clock := t\<rparr>) ip path w)]"
  by (simp split: prod.splits)

lemma hits_window:
  assumes up: "redis_up e" and absent: "lookup t0 (redis w) (rate_key ip path) = None"
    and pos: "0 < secs" and within: "\<forall>t\<in>set ts. t < t0 + secs"
  shows "fst (hits limit (1000 * secs) e ip path (t0 # ts) w) =
           map (\<lambda>i. if int i + 1 \<le> limit then Next () else throttled) [0..<Suc (length ts)] \<and>
         redis (snd (hits limit (1000 * secs) e ip path (t0 # ts) w)) (rate_key ip path) =
           Some (Num (1 + int (length ts)), Some (t0 + secs))"
proof -
  let ?k = "rate_key ip path"
  let ?w1 = "w\<lparr>redis := (redis w)(?k \<mapsto> (Num 1, Some (t0 + secs)))\<rparr>"
  have first: "rateLimiter limit (1000 * secs) (e\<lparr>clock := t0\<rparr>) ip path w =
                 (if 1 \<le> limit then Next () else throttled, ?w1)"
    using rateLimiter_first [of "e\<lparr>clock := t0\<rparr>" w ip path secs limit] up absent pos by simp
  have rest: "fst (hits limit (1000 * secs) e ip path ts ?w1) =
                map (\<lambda>i. if 1 + 1 + int i \<le> limit then Next () else throttled) [0..<length ts] \<and>
              redis (snd (hits limit (1000 * secs) e ip path ts ?w1)) ?k =
                Some (Num (1 + int (length ts)), Some (t0 + secs))"
    using up within by (intro hits_within) auto
  have whole: "hits limit (1000 * secs) e ip path (t0 # ts) w =
                 ((if 1 \<le> limit then Next () else throttled) #
                    fst (hits limit (1000 * secs) e ip path ts ?w1),
                  snd (hits limit (1000 * secs) e ip path ts ?w1))"
    by (simp add: first split: prod.splits)
  have "fst (hits limit (1000 * secs) e ip path (t0 # ts) w) =
          map (\<lambda>i. if int i + 1 \<le> limit then Next () else throttled) [0..<Suc (length ts)]"
    unfolding whole upt_Suc_shift using rest by (simp add: o_def add.commute add.left_commute)
  moreover have "redis (snd (hits limit (1000 * secs) e ip path (t0 # ts) w)) ?k =
          Some (Num (1 + int (length ts)), Some (t0 + secs))"
    unfolding whole using rest by simp
  ultimately show ?thesis by simp
qed

text \<open>
  Claim C3: for a client and route whose key is absent at second \<open>t0\<close>, with the store
  answering and a window of \<open>secs > 0\<close> whole seconds: the first hit leaves the counter at
  1 expiring at \<open>t0 + secs\<close>; further hits before that time count up and leave the expiry
  as it is; hit number \<open>i + 1\<close> of the window is let through iff \<open>i + 1 \<le> limit\<close> and
  answered 429 otherwise; and a hit at or after \<open>t0 + secs\<close> is judged as a first hit.
\<close>

theorem rateLimiter_fixed_window:
  assumes up: "redis_up e" and absent: "lookup t0 (redis w) (rate_key ip path) = None"
    and pos: "0 < secs" and within: "\<forall>t\<in>set ts. t < t0 + secs" and later: "t0 + secs \<le> t'"
  shows "redis (snd (hits limit (1000 * secs) e ip path [t0] w)) (rate_key ip path) =
           Some (Num 1, Some (t0 + secs)) \<and>
         redis (snd (hits limit (1000 * secs) e ip path (t0 # ts) w)) (rate_key ip path) =
           Some (Num (1 + int (length ts)), Some (t0 + secs)) \<and>
         length (fst (hits limit (1000 * secs) e ip path (t0 # ts) w)) = Suc (length ts) \<and>
         (\<forall>i<Suc (length ts).
            fst (hits limit (1000 * secs) e ip path (t0 # ts) w) ! i =
              (if int i + 1 \<le> limit then Next () else throttled)) \<and>
         fst (hits limit (1000 * secs) e ip path ((t0 # ts) @ [t']) w) =
           fst (hits limit (1000 * secs) e ip path (t0 # ts) w) @
             [if 1 \<le> limit then Next () else throttled]"
proof -
  let ?k = "rate_key ip path"
  let ?run = "hits limit (1000 * secs) e ip path"
  have one: "redis (snd (?run [t0] w)) ?k = Some (Num 1, Some (t0 + secs))"
    using hits_window [OF up absent pos, of "[]" limit] by simp
  have many: "fst (?run (t0 # ts) w) =
                map (\<lambda>i. if int i + 1 \<le> limit then Next () else throttled) [0..<Suc (length ts)]"
    and counted: "redis (snd (?run (t0 # ts) w)) ?k = Some (Num (1 + int (length ts)), Some (t0 + secs))"
    using hits_window [OF up absent pos within, of limit] by blast+
  have len: "length (fst (?run (t0 # ts) w)) = Suc (length ts)"
    unfolding many by simp
  have nth: "\<forall>i<Suc (length ts). fst (?run (t0 # ts) w) ! i =
               (if int i + 1 \<le> limit then Next () else throttled)"
    unfolding many by (simp del: upt_Suc)
  have gone: "lookup t' (redis (snd (?run (t0 # ts) w))) ?k = None"
    using counted later by (simp add: lookup_def live_def)
  have "fst (rateLimiter limit (1000 * secs) (e\<lparr>clock := t'\<rparr>) ip path (snd (?run (t0 # ts) w))) =
          (if 1 \<le> limit then Next () else throttled)"
    using rateLimiter_first [of "e\<lparr>clock := t'\<rparr>" "snd (?run (t0 # ts) w)" ip path secs limit]
      up gone pos by simp
  then have next_window: "fst (?run ((t0 # ts) @ [t']) w) =
          fst (?run (t0 # ts) w) @ [if 1 \<le> limit then Next () else throttled]"
    by (simp only: hits_append hits_single fst_conv)
  from one counted len nth next_window show ?thesis by blast
qed

text \<open>
  The example of the claim: limit 3 and a window of 60 seconds; requests at seconds
  0, 1 and 2 pass, the one at second 3 is answered 429, the one at second 61 passes.
\<close>

theorem rateLimiter_fixed_window_witness:
  "redis_up demo_env \<and> lookup 0 (redis empty_world) (rate_key ''10.0.0.1'' ''/login'') = None \<and>
   (0::nat) < 60 \<and> (1::nat) < 0 + 60 \<and> (2::nat) < 0 + 60 \<and> (3::nat) < 0 + 60 \<and>
   (0::nat) + 60 \<le> 61 \<and>
   fst (hits 3 60000 demo_env ''10.0.0.1'' ''/login'' [0, 1, 2, 3, 61] empty_world) =
     [Next (), Next (), Next (), throttled, Next ()]"
proof -
  let ?run = "hits 3 60000 demo_env ''10.0.0.1'' ''/login''"
  have up: "redis_up demo_env"
    by (simp add: demo_env_def)
  have absent: "lookup 0 (redis empty_world) (rate_key ''10.0.0.1'' ''/login'') = None"
    by (simp add: empty_world_def lookup_def)
  have pos: "(0::nat) < 60" by simp
  have within: "\<forall>t\<in>set [1, 2, 3::nat]. t < 0 + 60" by simp
  have later: "(0::nat) + 60 \<le> 61" by simp
  note window = rateLimiter_fixed_window [OF up absent pos within later, of 3]
  from window have len: "length (fst (?run [0, 1, 2, 3] empty_world)) = 4"
    by (simp del: hits.simps)
  from window have nth: "\<forall>i<4. fst (?run [0, 1, 2, 3] empty_world) ! i =
      (if int i + 1 \<le> 3 then Next () else throttled)"
    by (simp del: hits.simps)
  from window have more: "fst (?run [0, 1, 2, 3, 61] empty_world) =
      fst (?run [0, 1, 2, 3] empty_world) @ [Next ()]"
    by (simp del: hits.simps)
  have four: "(4::nat) = Suc (Suc (Suc (Suc 0)))" by simp
  have "fst (?run [0, 1, 2, 3] empty_world) = [Next (), Next (), Next (), throttled]"
    using len nth by (simp add: list_eq_iff_nth_eq four less_Suc_eq nth_Cons' del: hits.simps)
  with more up absent show ?thesis
    by (simp del: hits.simps)
qed

text \<open>
  Claim C8: the limiter fails open. When the store does not answer, when \<open>INCR\<close> raises
  for any reason, or when \<open>INCR\<close> has counted a first hit and setting the expiry raises,
  the request is passed on to the next handler; the state is what the store was left in.
\<close>

theorem rateLimiter_fails_open:
  "(\<not> redis_up e \<longrightarrow> rateLimiter limit windowMs e ip path w = (Next (), w)) \<and>
   (redis_incr e (rate_key ip path) w = Inl f \<longrightarrow>
      rateLimiter limit windowMs e ip path w = (Next (), w)) \<and>
   (redis_incr e (rate_key ip path) w = Inr (1, w1) \<and>
    (if windowMs mod 1000 = 0 then redis_expire e (rate_key ip path) (windowMs div 1000) w1
     else Inl StoreError) = Inl f' \<longrightarrow>
      rateLimiter limit windowMs e ip path w = (Next (), w1))"
  by (simp add: rateLimiter_def redis_incr_def)

text \<open>
  With limit 0 every counted request would be answered 429; each of these is passed on:
  the store is down; the key holds text; the window of 1500 ms is not a number of seconds.
\<close>

theorem rateLimiter_fails_open_witness:
  "\<not> redis_up (demo_env\<lparr>redis_up := False\<rparr>) \<and>
   rateLimiter 0 60000 (demo_env\<lparr>redis_up := False\<rparr>) ''10.0.0.1'' ''/login'' empty_world =
     (Next (), empty_world) \<and>
   redis_incr demo_env (rate_key ''10.0.0.1'' ''/login'') wrong_type_world = Inl StoreError \<and>
   rateLimiter 0 60000 demo_env ''10.0.0.1'' ''/login'' wrong_type_world =
     (Next (), wrong_type_world) \<and>
   redis_incr demo_env (rate_key ''10.0.0.1'' ''/login'') empty_world =
     Inr (1, empty_world\<lparr>redis := [rate_key ''10.0.0.1'' ''/login'' \<mapsto> (Num 1, None)]\<rparr>) \<and>
   rateLimiter 0 1500 demo_env ''10.0.0.1'' ''/login'' empty_world =
     (Next (), empty_world\<lparr>redis := [rate_key ''10.0.0.1'' ''/login'' \<mapsto> (Num 1, None)]\<rparr>)"
proof -
  have down: "\<not> redis_up (demo_env\<lparr>redis_up := False\<rparr>)" by simp
  have wrong: "redis_incr demo_env (rate_key ''10.0.0.1'' ''/login'') wrong_type_world = Inl StoreError"
    by (simp add: redis_incr_def lookup_def live_def demo_env_def wrong_type_world_def)
  have counted: "redis_incr demo_env (rate_key ''10.0.0.1'' ''/login'') empty_world =
     Inr (1, empty_world\<lparr>redis := [rate_key ''10.0.0.1'' ''/login'' \<mapsto> (Num 1, None)]\<rparr>)"
    by (simp add: redis_incr_def lookup_def demo_env_def empty_world_def)
  have uneven: "(if (1500::nat) mod 1000 = 0
       then redis_expire demo_env (rate_key ''10.0.0.1'' ''/login'') (1500 div 1000)
              (empty_world\<lparr>redis := [rate_key ''10.0.0.1'' ''/login'' \<mapsto> (Num 1, None)]\<rparr>)
       else Inl StoreError) = Inl StoreError"
    by simp
  from down wrong counted uneven
    rateLimiter_fails_open [where e = "demo_env\<lparr>redis_up := False\<rparr>" and limit = 0
      and windowMs = 60000 and ip = "''10.0.0.1''" and path = "''/login''" and w = empty_world]
    rateLimiter_fails_open [where e = demo_env and limit = 0 and windowMs = 60000
      and ip = "''10.0.0.1''" and path = "''/login''" and w = wrong_type_world and f = StoreError]
    rateLimiter_fails_open [where e = demo_env and limit = 0 and windowMs = 1500
      and ip = "''10.0.0.1''" and path = "''/login''" and w = empty_world and f' = StoreError
      and ?w1.0 = "empty_world\<lparr>redis := [rate_key ''10.0.0.1'' ''/login'' \<mapsto> (Num 1, None)]\<rparr>"]
  show ?thesis by blast
qed

section \<open>Login\<close>

text \<open>
  Claim C4: a login whose email has no record and a login whose email has one but whose
  password does not match get the same response, 401 ``Invalid credentials'', equal in
  every field; a login with a matching password for an account whose email is not yet
  verified gets 403. None of them changes the state.
\<close>

theorem login_hides_account_existence:
  "(findOne e1 (l_email b1) w1 = Inr None \<and> findOne e2 (l_email b2) w2 = Inr (Some u) \<and>
    \<not> bcrypt_compare (l_password b2) (password u) \<longrightarrow>
      login e1 b1 w1 = (reply 401 False ''Invalid credentials'', w1) \<and>
      login e2 b2 w2 = (reply 401 False ''Invalid credentials'', w2) \<and>
      fst (login e1 b1 w1) = fst (login e2 b2 w2)) \<and>
   (findOne e3 (l_email b3) w3 = Inr (Some u3) \<and> bcrypt_compare (l_password b3) (password u3) \<and>
    \<not> isEmailVerified u3 \<longrightarrow>
      login e3 b3 w3 = (reply 403 False ''Please verify your email first'', w3))"
  by (simp add: login_def)

theorem login_hides_account_existence_witness:
  "findOne demo_env (l_email stranger_login) two_users = Inr None \<and>
   findOne demo_env (l_email alice_typo) two_users = Inr (Some alice) \<and>
   \<not> bcrypt_compare (l_password alice_typo) (password alice) \<and>
   fst (login demo_env stranger_login two_users) = reply 401 False ''Invalid credentials'' \<and>
   fst (login demo_env stranger_login two_users) = fst (login demo_env alice_typo two_users) \<and>
   findOne demo_env (l_email bob_login) two_users = Inr (Some bob) \<and>
   bcrypt_compare (l_password bob_login) (password bob) \<and> \<not> isEmailVerified bob \<and>
   login demo_env bob_login two_users = (reply 403 False ''Please verify your email first'', two_users)"
proof -
  have unknown: "findOne demo_env (l_email stranger_login) two_users = Inr None"
    and known: "findOne demo_env (l_email alice_typo) two_users = Inr (Some alice)"
    and other: "findOne demo_env (l_email bob_login) two_users = Inr (Some bob)"
    by (simp_all add: findOne_def sample_defs sample_text)
  have mismatch: "\<not> bcrypt_compare (l_password alice_typo) (password alice)"
    and match: "bcrypt_compare (l_password bob_login) (password bob)"
    and pending: "\<not> isEmailVerified bob"
    by (simp_all add: sample_defs)
  from unknown known other mismatch match pending
    login_hides_account_existence [where ?e1.0 = demo_env and ?b1.0 = stranger_login
      and ?w1.0 = two_users and ?e2.0 = demo_env and ?b2.0 = alice_typo and ?w2.0 = two_users
      and u = alice and ?e3.0 = demo_env and ?b3.0 = bob_login and ?w3.0 = two_users
      and ?u3.0 = bob]
  show ?thesis by simp
qed

section \<open>Refresh\<close>

text \<open>
  Claim C5: a refresh never changes the state, so the value under the subject's refresh
  key and every other key stay as they were; and when it is answered 200 the response
  carries a newly signed access token for the subject's account and no refresh token.
\<close>

theorem refreshToken_frame:
  "snd (refreshToken e body w) = w \<and>
   (status_code (fst (refreshToken e body w)) = 200 \<longrightarrow>
      (\<exists>t decoded u. body = Some t \<and> jwt_verify t (JWT_SECRET e) (clock e) = Inr decoded \<and>
         findById e (userId decoded) w = Inr (Some u) \<and>
         data (fst (refreshToken e body w)) =
           Some (Renewed (jwt_sign (access_claims u) (JWT_SECRET e) JWT_EXPIRES_IN (clock e))
                         JWT_EXPIRES_IN)))"
  by (auto simp: refreshToken_def reply_def Let_def split: option.splits sum.splits if_splits)

theorem refreshToken_frame_witness:
  "status_code (fst (refreshToken (env_at 101) (Some (alice_refresh 100)) logged_in)) = 200 \<and>
   snd (refreshToken (env_at 101) (Some (alice_refresh 100)) logged_in) = logged_in \<and>
   data (fst (refreshToken (env_at 101) (Some (alice_refresh 100)) logged_in)) =
     Some (Renewed (alice_access 101) JWT_EXPIRES_IN)"
proof -
  have ok: "status_code (fst (refreshToken (env_at 101) (Some (alice_refresh 100)) logged_in)) = 200"
    by (simp add: sample_defs handler_defs store_defs)
  have found: "findById (env_at 101) ''u1'' logged_in = Inr (Some alice)"
    by (simp add: sample_defs handler_defs store_defs)
  have decoded: "jwt_verify (alice_refresh 100) (JWT_SECRET (env_at 101)) (clock (env_at 101)) =
      Inr (RefreshClaims ''u1'')"
    by (simp add: sample_defs handler_defs)
  have signed: "jwt_sign (access_claims alice) (JWT_SECRET (env_at 101)) JWT_EXPIRES_IN
      (clock (env_at 101)) = alice_access 101"
    by (simp add: sample_defs)
  from ok found decoded signed
    refreshToken_frame [of "env_at 101" "Some (alice_refresh 100)" logged_in]
  show ?thesis by auto
qed

text \<open>
  Claim C9: when the presented refresh token verifies and equals the value stored for its
  subject but no user document has the subject's identifier, the refresh is answered 404
  ``User not found''; the response carries no data, hence no access token.
\<close>

theorem refreshToken_user_gone:
  assumes "jwt_verify t (JWT_SECRET e) (clock e) = Inr decoded"
    and "redis_get e (Refresh (userId decoded)) w = Inr (Some (Tok t))"
    and "findById e (userId decoded) w = Inr None"
  shows "refreshToken e (Some t) w = (reply 404 False ''User not found'', w) \<and>
         data (fst (refreshToken e (Some t) w)) = None"
proof -
  from assms(1) have "\<not> falsy (Some t)" by (cases t) auto
  with assms show ?thesis by (simp add: refreshToken_def differs_def reply_def)
qed

theorem refreshToken_user_gone_witness:
  "jwt_verify ghost_refresh (JWT_SECRET (env_at 10)) (clock (env_at 10)) = Inr (RefreshClaims ''u9'') \<and>
   redis_get (env_at 10) (Refresh ''u9'') ghost_world = Inr (Some (Tok ghost_refresh)) \<and>
   findById (env_at 10) ''u9'' ghost_world = Inr None \<and>
   refreshToken (env_at 10) (Some ghost_refresh) ghost_world =
     (reply 404 False ''User not found'', ghost_world)"
proof -
  have v: "jwt_verify ghost_refresh (JWT_SECRET (env_at 10)) (clock (env_at 10)) =
      Inr (RefreshClaims ''u9'')"
    by (simp add: sample_defs handler_defs)
  have s: "redis_get (env_at 10) (Refresh (userId (RefreshClaims ''u9''))) ghost_world =
      Inr (Some (Tok ghost_refresh))"
    by (simp add: sample_defs store_defs)
  have n: "findById (env_at 10) (userId (RefreshClaims ''u9'')) ghost_world = Inr None"
    by (simp add: sample_defs store_defs)
  from refreshToken_user_gone [OF v s n] v s n show ?thesis by simp
qed

section \<open>Registration\<close>

lemma save_fresh:
  assumes "findOne e (b_email body) w = Inr None" "schema_valid body"
    and "\<forall>u\<in>set (users w). uid u \<noteq> new_id e"
  shows "save e body w = Inr (new_User e body, w\<lparr>users := users w @ [new_User e body]\<rparr>)"
proof -
  from assms(1) have up: "mongo_up e"
    and none: "find (\<lambda>u. email u = toLowerCase (trim (b_email body))) (users w) = None"
    by (simp_all add: findOne_def split: if_splits)
  from none have "\<forall>u\<in>set (users w). email u \<noteq> toLowerCase (trim (b_email body))"
    by (simp add: find_None_iff)
  with assms(3) have
    "\<not> list_ex (\<lambda>u. uid u = new_id e \<or> email u = toLowerCase (trim (b_email body))) (users w)"
    by (auto simp: list_ex_iff)
  with up assms(2) show ?thesis by (simp add: save_def)
qed

lemma register_created:
  assumes "findOne e (b_email body) w = Inr None" "schema_valid body" "redis_up e" "mail_up e"
    and "\<forall>u\<in>set (users w). uid u \<noteq> new_id e"
  shows "snd (register e body w) =
           w\<lparr>users := users w @ [new_User e body],
             redis := (redis w)
               (Verify (new_id e) \<mapsto>
                  (Tok (jwt_sign (VerifyClaims (new_id e) (toLowerCase (trim (b_email body))))
                          (JWT_SECRET e) (Hours 24) (clock e)),
                   Some (clock e + 86400)),
                Refresh (new_id e) \<mapsto>
                  (Tok (jwt_sign (RefreshClaims (new_id e)) (JWT_SECRET e) REFRESH_TOKEN_EXPIRES_IN
                          (clock e)),
                   Some (clock e + 30 * 86400))),
             outbox := outbox w @
               [(toLowerCase (trim (b_email body)),
                 jwt_sign (VerifyClaims (new_id e) (toLowerCase (trim (b_email body))))
                   (JWT_SECRET e) (Hours 24) (clock e))]\<rparr>"
  using assms
  by (simp add: register_def save_fresh Let_def redis_setEx_def sendVerificationEmail_def
      new_User_def)

text \<open>
  Claim C7: registering an email that already has a record (a user whose stored email is
  the request's email, trimmed and lower-cased) is answered 400 ``User already exists''
  and leaves the state as it was. Registering an email without a record, with a body
  whose fields pass the schema's validators once the setters have run, a fresh identifier
  and the store and the mailer answering, is answered 201 with the user's view and an
  access and refresh token pair; it appends the user, unverified, with the email trimmed
  and lower-cased and the names trimmed, stores the verification token under the
  subject's verify key for 86400 seconds and the refresh token under the subject's
  refresh key for 30 * 86400 seconds, changes no other key, and mails the verification
  token to the stored address.
\<close>

theorem register_conflict_or_create:
  "(findOne e (b_email body) w = Inr (Some existing) \<longrightarrow>
      register e body w = (reply 400 False ''User already exists'', w)) \<and>
   (findOne e (b_email body) w = Inr None \<and> schema_valid body \<and> redis_up e \<and> mail_up e \<and>
    (\<forall>u\<in>set (users w). uid u \<noteq> new_id e) \<longrightarrow>
      (let u = new_User e body;
           verificationToken =
             jwt_sign (VerifyClaims (uid u) (email u)) (JWT_SECRET e) (Hours 24) (clock e);
           accessToken = jwt_sign (access_claims u) (JWT_SECRET e) JWT_EXPIRES_IN (clock e);
           refreshToken =
             jwt_sign (RefreshClaims (uid u)) (JWT_SECRET e) REFRESH_TOKEN_EXPIRES_IN (clock e);
           r = fst (register e body w);
           w' = snd (register e body w)
       in status_code r = 201 \<and> success r \<and>
          data r = Some (Session (view u) accessToken refreshToken JWT_EXPIRES_IN) \<and>
          users w' = users w @ [u] \<and> \<not> isEmailVerified u \<and> uid u = new_id e \<and>
          email u = toLowerCase (trim (b_email body)) \<and>
          firstName u = trim (b_firstName body) \<and> lastName u = trim (b_lastName body) \<and>
          redis w' = (redis w)
            (Verify (uid u) \<mapsto> (Tok verificationToken, Some (clock e + 86400)),
             Refresh (uid u) \<mapsto> (Tok refreshToken, Some (clock e + 30 * 86400))) \<and>
          outbox w' = outbox w @ [(email u, verificationToken)]))"
proof (intro conjI impI)
  assume "findOne e (b_email body) w = Inr (Some existing)"
  then show "register e body w = (reply 400 False ''User already exists'', w)"
    by (simp add: register_def)
next
  assume a: "findOne e (b_email body) w = Inr None \<and> schema_valid body \<and> redis_up e \<and> mail_up e \<and>
    (\<forall>u\<in>set (users w). uid u \<noteq> new_id e)"
  then have saved: "save e body w = Inr (new_User e body, w\<lparr>users := users w @ [new_User e body]\<rparr>)"
    using save_fresh by blast
  show "let u = new_User e body;
           verificationToken =
             jwt_sign (VerifyClaims (uid u) (email u)) (JWT_SECRET e) (Hours 24) (clock e);
           accessToken = jwt_sign (access_claims u) (JWT_SECRET e) JWT_EXPIRES_IN (clock e);
           refreshToken =
             jwt_sign (RefreshClaims (uid u)) (JWT_SECRET e) REFRESH_TOKEN_EXPIRES_IN (clock e);
           r = fst (register e body w);
           w' = snd (register e body w)
       in status_code r = 201 \<and> success r \<and>
          data r = Some (Session (view u) accessToken refreshToken JWT_EXPIRES_IN) \<and>
          users w' = users w @ [u] \<and> \<not> isEmailVerified u \<and> uid u = new_id e \<and>
          email u = toLowerCase (trim (b_email body)) \<and>
          firstName u = trim (b_firstName body) \<and> lastName u = trim (b_lastName body) \<and>
          redis w' = (redis w)
            (Verify (uid u) \<mapsto> (Tok verificationToken, Some (clock e + 86400)),
             Refresh (uid u) \<mapsto> (Tok refreshToken, Some (clock e + 30 * 86400))) \<and>
          outbox w' = outbox w @ [(email u, verificationToken)]"
    using a
    by (simp add: register_def saved Let_def redis_setEx_def sendVerificationEmail_def new_User_def)
qed

text \<open>
  Alice is on record as \<open>alice@example.com\<close>: registering \<open>Alice@Example.COM\<close> is a
  conflict. Carol's body carries her address padded and in capitals and her first name
  with a trailing space: she is stored as \<open>carol@example.com\<close>, \<open>Carol\<close>.
\<close>

theorem register_conflict_or_create_witness:
  "findOne demo_env (b_email alice_again_body) two_users = Inr (Some alice) \<and>
   register demo_env alice_again_body two_users = (reply 400 False ''User already exists'', two_users) \<and>
   findOne demo_env (b_email carol_body) two_users = Inr None \<and> schema_valid carol_body \<and>
   redis_up demo_env \<and> mail_up demo_env \<and> users two_users = [alice, bob] \<and>
   uid alice \<noteq> new_id demo_env \<and> uid bob \<noteq> new_id demo_env \<and>
   new_User demo_env carol_body = carol \<and>
   status_code (fst (register demo_env carol_body two_users)) = 201 \<and>
   users registered = [alice, bob, carol] \<and>
   redis registered (Verify ''u3'') = Some (Tok carol_verify, Some 86400) \<and>
   redis registered (Refresh ''u3'') =
     Some (Tok (jwt_sign (RefreshClaims ''u3'') ''your-secret-key'' REFRESH_TOKEN_EXPIRES_IN 0),
           Some 2592000) \<and>
   outbox registered = [(''carol@example.com'', carol_verify)]"
proof -
  have taken: "findOne demo_env (b_email alice_again_body) two_users = Inr (Some alice)"
    and free: "findOne demo_env (b_email carol_body) two_users = Inr None"
    by (simp_all add: findOne_def sample_defs sample_text)
  have valid: "schema_valid carol_body"
    by (simp add: schema_valid_def carol_body_def sample_text)
  have up: "redis_up demo_env" "mail_up demo_env"
    by (simp_all add: demo_env_def)
  have fresh: "\<forall>u\<in>set (users two_users). uid u \<noteq> new_id demo_env"
    by (simp add: sample_defs)
  have she: "new_User demo_env carol_body = carol"
    by (simp add: new_User_def demo_env_def carol_body_def carol_def sample_text)
  have names: "uid carol = ''u3''" "email carol = ''carol@example.com''"
    "JWT_SECRET demo_env = ''your-secret-key''" "clock demo_env = 0"
    by (simp_all add: carol_def demo_env_def)
  from taken free valid up fresh
    register_conflict_or_create [where e = demo_env and body = alice_again_body and w = two_users
      and existing = alice]
    register_conflict_or_create [where e = demo_env and body = carol_body and w = two_users]
  show ?thesis
    by (simp add: Let_def registered_def she names carol_verify_def two_users_def)
qed

text \<open>A first name of one space is empty once trimmed: the save raises, the answer is 500.\<close>

lemma register_blank_name:
  "findOne demo_env (b_email blank_name_body) two_users = Inr None \<and>
   \<not> schema_valid blank_name_body \<and>
   register demo_env blank_name_body two_users = (register_failed ValidationError, two_users)"
  by (simp add: register_def findOne_def save_def schema_valid_def sample_defs sample_text)

section \<open>Email verification\<close>

lemma find_set_verified:
  "find (\<lambda>u. uid u = i) (set_verified i us) =
     map_option (\<lambda>u. u\<lparr>isEmailVerified := True\<rparr>) (find (\<lambda>u. uid u = i) us)"
  by (induction us) auto

lemma verifyEmail_first:
  assumes "jwt_verify t (JWT_SECRET e) (clock e) = Inr decoded"
    and "redis_get e (Verify (userId decoded)) w = Inr (Some (Tok t))"
    and "mongo_up e"
  shows "verifyEmail e (Some t) w =
           (reply 200 True ''Email verified successfully'',
            w\<lparr>users := set_verified (userId decoded) (users w),
              redis := (redis w)(Verify (userId decoded) := None)\<rparr>)"
proof -
  from assms(1) have nf: "\<not> falsy (Some t)" by (cases t) auto
  from assms(2) have up: "redis_up e" by (simp add: redis_get_def split: if_splits)
  show ?thesis
    using assms nf up
    by (simp add: verifyEmail_def differs_def findByIdAndUpdate_def redis_del_def)
qed

lemma verifyEmail_rejects:
  assumes "\<not> falsy (Some t)"
    and "\<forall>d. jwt_verify t (JWT_SECRET e) (clock e) = Inr d \<longrightarrow>
           redis_get e (Verify (userId d)) w \<noteq> Inr (Some (Tok t))"
  shows "verifyEmail e (Some t) w = (reply 400 False ''Invalid or expired verification token'', w)"
  using assms
  by (auto simp: verifyEmail_def differs_def split: sum.splits)

text \<open>
  The verification token a registration stores expires as a token exactly when its key
  expires in the store: while the store still returns it, it verifies.
\<close>

lemma registered_token_verifies:
  assumes "findOne e0 (b_email body) w = Inr None" "schema_valid body" "redis_up e0" "mail_up e0"
    and "\<forall>u\<in>set (users w). uid u \<noteq> new_id e0"
    and "redis_get e (Verify (new_id e0)) (snd (register e0 body w)) = Inr (Some (Tok t))"
    and "JWT_SECRET e = JWT_SECRET e0"
  shows "jwt_verify t (JWT_SECRET e) (clock e) =
           Inr (VerifyClaims (new_id e0) (toLowerCase (trim (b_email body))))"
  using assms(6,7) unfolding register_created [OF assms(1-5)]
  by (auto simp: redis_get_def lookup_def live_def jwt_sign_def split: if_splits)

text \<open>
  Claim C6: when the presented token verifies and is the one stored under its subject's
  verify key (and the database answers), verify-email is answered 200, the subject's user
  document is marked verified and the verify key is deleted; presenting the same token
  again, at any time, is answered 400 ``Invalid or expired verification token''. And any
  presented (non-empty) token that is not the stored one for its subject is answered the
  same 400, leaving the state as it was.
\<close>

theorem verifyEmail_single_use:
  "(jwt_verify t (JWT_SECRET e) (clock e) = Inr decoded \<and>
    redis_get e (Verify (userId decoded)) w = Inr (Some (Tok t)) \<and> mongo_up e \<longrightarrow>
      fst (verifyEmail e (Some t) w) = reply 200 True ''Email verified successfully'' \<and>
      findById e (userId decoded) (snd (verifyEmail e (Some t) w)) =
        Inr (map_option (\<lambda>u. u\<lparr>isEmailVerified := True\<rparr>)
               (find (\<lambda>u. uid u = userId decoded) (users w))) \<and>
      redis (snd (verifyEmail e (Some t) w)) (Verify (userId decoded)) = None \<and>
      fst (verifyEmail e' (Some t) (snd (verifyEmail e (Some t) w))) =
        reply 400 False ''Invalid or expired verification token'') \<and>
   (\<not> falsy (Some t') \<and>
    (\<forall>d. jwt_verify t' (JWT_SECRET e) (clock e) = Inr d \<longrightarrow>
          redis_get e (Verify (userId d)) w \<noteq> Inr (Some (Tok t'))) \<longrightarrow>
      verifyEmail e (Some t') w = (reply 400 False ''Invalid or expired verification token'', w))"
proof (intro conjI impI)
  assume a: "jwt_verify t (JWT_SECRET e) (clock e) = Inr decoded \<and>
    redis_get e (Verify (userId decoded)) w = Inr (Some (Tok t)) \<and> mongo_up e"
  let ?w' = "w\<lparr>users := set_verified (userId decoded) (users w),
               redis := (redis w)(Verify (userId decoded) := None)\<rparr>"
  from a have first: "verifyEmail e (Some t) w = (reply 200 True ''Email verified successfully'', ?w')"
    using verifyEmail_first by blast
  from a have nf: "\<not> falsy (Some t)" by (cases t) auto
  show "fst (verifyEmail e (Some t) w) = reply 200 True ''Email verified successfully''"
    by (simp add: first)
  show "findById e (userId decoded) (snd (verifyEmail e (Some t) w)) =
        Inr (map_option (\<lambda>u. u\<lparr>isEmailVerified := True\<rparr>)
               (find (\<lambda>u. uid u = userId decoded) (users w)))"
    using a by (simp add: first findById_def find_set_verified)
  show "redis (snd (verifyEmail e (Some t) w)) (Verify (userId decoded)) = None"
    by (simp add: first)
  have "\<forall>d. jwt_verify t (JWT_SECRET e') (clock e') = Inr d \<longrightarrow>
          redis_get e' (Verify (userId d)) ?w' \<noteq> Inr (Some (Tok t))"
    using a by (cases t) (auto simp: redis_get_def lookup_def split: if_splits)
  with nf have "verifyEmail e' (Some t) ?w' =
      (reply 400 False ''Invalid or expired verification token'', ?w')"
    by (rule verifyEmail_rejects)
  then show "fst (verifyEmail e' (Some t) (snd (verifyEmail e (Some t) w))) =
        reply 400 False ''Invalid or expired verification token''"
    by (simp add: first)
next
  assume "\<not> falsy (Some t') \<and>
    (\<forall>d. jwt_verify t' (JWT_SECRET e) (clock e) = Inr d \<longrightarrow>
          redis_get e (Verify (userId d)) w \<noteq> Inr (Some (Tok t')))"
  then show "verifyEmail e (Some t') w = (reply 400 False ''Invalid or expired verification token'', w)"
    using verifyEmail_rejects by blast
qed

text \<open>
  Carol registers at second 0 and follows the mailed link at second 50, then again at
  second 60; a token signed five seconds after hers is refused at second 50.
\<close>

theorem verifyEmail_single_use_witness:
  "jwt_verify carol_verify (JWT_SECRET (env_at 50)) (clock (env_at 50)) =
     Inr (VerifyClaims ''u3'' ''carol@example.com'') \<and>
   redis_get (env_at 50) (Verify ''u3'') registered = Inr (Some (Tok carol_verify)) \<and>
   mongo_up (env_at 50) \<and>
   fst (verifyEmail (env_at 50) (Some carol_verify) registered) =
     reply 200 True ''Email verified successfully'' \<and>
   findById (env_at 50) ''u3'' (snd (verifyEmail (env_at 50) (Some carol_verify) registered)) =
     Inr (Some ((new_User demo_env carol_body)\<lparr>isEmailVerified := True\<rparr>)) \<and>
   fst (verifyEmail (env_at 60) (Some carol_verify)
          (snd (verifyEmail (env_at 50) (Some carol_verify) registered))) =
     reply 400 False ''Invalid or expired verification token'' \<and>
   \<not> falsy (Some (jwt_sign (VerifyClaims ''u3'' ''carol@example.com'') ''your-secret-key'' (Hours 24) 5)) \<and>
   verifyEmail (env_at 50)
     (Some (jwt_sign (VerifyClaims ''u3'' ''carol@example.com'') ''your-secret-key'' (Hours 24) 5))
     registered =
     (reply 400 False ''Invalid or expired verification token'', registered)"
proof -
  let ?other = "jwt_sign (VerifyClaims ''u3'' ''carol@example.com'') ''your-secret-key'' (Hours 24) 5"
  have v: "jwt_verify carol_verify (JWT_SECRET (env_at 50)) (clock (env_at 50)) =
      Inr (VerifyClaims ''u3'' ''carol@example.com'')"
    by (simp add: sample_defs handler_defs)
  have s: "redis_get (env_at 50) (Verify ''u3'') registered = Inr (Some (Tok carol_verify))"
    by (simp add: sample_defs handler_defs store_defs)
  have m: "mongo_up (env_at 50)"
    by (simp add: sample_defs)
  have found: "find (\<lambda>u. uid u = ''u3'') (users registered) = Some (new_User demo_env carol_body)"
    by (simp add: sample_defs handler_defs store_defs)
  have nf: "\<not> falsy (Some ?other)"
    by (simp add: jwt_sign_def)
  have mismatch: "\<forall>d. jwt_verify ?other (JWT_SECRET (env_at 50)) (clock (env_at 50)) = Inr d \<longrightarrow>
      redis_get (env_at 50) (Verify (userId d)) registered \<noteq> Inr (Some (Tok ?other))"
    using s by (auto simp: jwt_sign_def carol_verify_def split: if_splits)
  from v s m found nf mismatch
    verifyEmail_single_use [where e = "env_at 50" and t = carol_verify and w = registered
      and decoded = "VerifyClaims ''u3'' ''carol@example.com''" and e' = "env_at 60"
      and t' = ?other]
  show ?thesis by simp
qed

section \<open>Inventory\<close>

lemma sample_numbers:
  "to_double (- 3) = Finite (- 3)" "to_double 3 = Finite 3" "to_double 0 = Finite 0"
  by code_simp+

lemma js_lt_zero_iff: "q \<noteq> NaN \<Longrightarrow> js_lt (Finite 0) q = (\<not> js_le q (Finite 0))"
  by (cases q) auto

lemma js_neg_NaN: "js_neg q = NaN \<longleftrightarrow> q = NaN"
  by (cases q) auto

lemma js_lt_not_ge: "js_lt q (Finite 0) \<Longrightarrow> \<not> js_le (Finite 0) q"
  by (cases q) auto

lemma js_lt_le: "js_lt q (Finite 0) \<Longrightarrow> js_le q (Finite 0)"
  by (cases q) auto

lemma inc_quantity_Some:
  "inc_quantity e productId n s = Inr (Some p, s1) \<Longrightarrow>
   \<exists>p0. find (\<lambda>q. pid q = productId) (products s) = Some p0 \<and>
        p = p0\<lparr>quantity := js_add (quantity p0) n\<rparr> \<and>
        s1 = s\<lparr>products := replace_product p (products s)\<rparr>"
  by (auto simp: inc_quantity_def Let_def split: if_splits option.splits)

text \<open>
  What holds of a product the method returns: unless its quantity is not-a-number, its
  status is \<open>out_of_stock\<close> exactly when its quantity is at most 0; and a product
  returned with a quantity below 0 was \<open>out_of_stock\<close> before the call.
\<close>

lemma updateInventory_returned:
  assumes "fst (updateInventory e productId qty op s) = Inr (Some p)"
  shows "(quantity p \<noteq> NaN \<longrightarrow> (status p = ''out_of_stock'') = js_le (quantity p) (Finite 0)) \<and>
         (js_lt (quantity p) (Finite 0) \<longrightarrow>
            (\<exists>p0. find (\<lambda>q. pid q = productId) (products s) = Some p0 \<and>
                  status p0 = ''out_of_stock''))"
proof -
  let ?n = "if op = add then qty else js_neg qty"
  obtain p1 s1 where inc: "inc_quantity e productId ?n s = Inr (Some p1, s1)"
    using assms
    by (auto simp: updateInventory_def Let_def split: sum.splits prod.splits option.splits)
  then obtain p0 where p0: "find (\<lambda>q. pid q = productId) (products s) = Some p0"
    and p1: "p1 = p0\<lparr>quantity := js_add (quantity p0) ?n\<rparr>"
    using inc_quantity_Some by blast
  consider (sell) "js_le (quantity p1) (Finite 0)" "status p1 \<noteq> ''out_of_stock''"
    | (restock) "\<not> (js_le (quantity p1) (Finite 0) \<and> status p1 \<noteq> ''out_of_stock'')"
        "js_lt (Finite 0) (quantity p1)" "status p1 = ''out_of_stock''"
    | (same) "\<not> (js_le (quantity p1) (Finite 0) \<and> status p1 \<noteq> ''out_of_stock'')"
        "\<not> (js_lt (Finite 0) (quantity p1) \<and> status p1 = ''out_of_stock'')"
    by blast
  then show ?thesis
  proof cases
    case sell
    with assms inc have p: "p = p1\<lparr>status := ''out_of_stock''\<rparr>"
      and valid: "product_valid (p1\<lparr>status := ''out_of_stock''\<rparr>)"
      by (auto simp: updateInventory_def Let_def product_save_def
          split: sum.splits prod.splits if_splits)
    from valid have "js_le (Finite 0) (quantity p1)"
      by (simp add: product_valid_def)
    with sell p show ?thesis
      by (auto dest: js_lt_not_ge)
  next
    case restock
    with assms inc have p: "p = p1\<lparr>status := ''active''\<rparr>"
      by (auto simp: updateInventory_def Let_def split: sum.splits prod.splits if_splits)
    with restock show ?thesis
      by (cases "quantity p1") auto
  next
    case same
    with assms inc have p: "p = p1"
      by (auto simp: updateInventory_def Let_def split: sum.splits prod.splits if_splits)
    with same p p0 p1 show ?thesis
      by (auto simp: js_lt_zero_iff dest: js_lt_le)
  qed
qed

text \<open>
  Below zero the method raises, whatever the amounts: when the new quantity of a product
  that is not \<open>out_of_stock\<close> is less than 0, the increment is written, the save of the
  new status is refused by the quantity's minimum, and the fault is rethrown; the store
  keeps the negative quantity with the old status, and the cache entry and the queue are
  not touched.
\<close>

lemma updateInventory_below_zero:
  assumes "shop_mongo_up e" "find (\<lambda>q. pid q = productId) (products s) = Some p0"
    and "status p0 \<noteq> ''out_of_stock''"
    and "js_lt (js_add (quantity p0) (if op = add then qty else js_neg qty)) (Finite 0)"
  shows "updateInventory e productId qty op s =
           (Inl ValidationError,
            s\<lparr>products :=
                replace_product
                  (p0\<lparr>quantity := js_add (quantity p0) (if op = add then qty else js_neg qty)\<rparr>)
                  (products s)\<rparr>)"
proof -
  let ?n = "if op = add then qty else js_neg qty"
  let ?p1 = "p0\<lparr>quantity := js_add (quantity p0) ?n\<rparr>"
  have "?n \<noteq> NaN"
    using assms(4) by (cases "quantity p0") (auto split: if_splits)
  then have inc: "inc_quantity e productId ?n s =
      Inr (Some ?p1, s\<lparr>products := replace_product ?p1 (products s)\<rparr>)"
    using assms(1,2) by (simp add: inc_quantity_def Let_def)
  have le: "js_le (quantity ?p1) (Finite 0)" and bad: "\<not> js_le (Finite 0) (quantity ?p1)"
    using assms(4) by (simp_all add: js_lt_le js_lt_not_ge)
  from bad have "\<not> product_valid (?p1\<lparr>status := ''out_of_stock''\<rparr>)"
    by (simp add: product_valid_def)
  with inc le assms(3) show ?thesis
    by (simp add: updateInventory_def Let_def product_save_def)
qed

text \<open>
  Claim C10 says that a product whose quantity drops to 0 or below is forced to
  \<open>out_of_stock\<close> whatever its status was, so that the returned product is
  \<open>out_of_stock\<close> exactly when its quantity is at most 0. The method means to do so (its
  test is \<open>quantity <= 0\<close>) and does at exactly 0, but not below: with 5 kettles in stock
  and \<open>active\<close>, subtracting 8 raises a validation error instead of returning a product,
  and leaves the kettle stored with quantity -3 and status \<open>active\<close>, its cache entry
  and the queue untouched.
\<close>

theorem updateInventory_oversold_stays_active:
  "fst (updateInventory shop_env_up ''p1'' (Finite 8) subtract demo_shop) = Inl ValidationError \<and>
   products (snd (updateInventory shop_env_up ''p1'' (Finite 8) subtract demo_shop)) =
     [kettle\<lparr>quantity := Finite (- 3)\<rparr>, lamp] \<and>
   status (kettle\<lparr>quantity := Finite (- 3)\<rparr>) = ''active'' \<and>
   published (snd (updateInventory shop_env_up ''p1'' (Finite 8) subtract demo_shop)) = []"
  by (simp add: updateInventory_def inc_quantity_def product_save_def product_valid_def
      sample_defs sample_numbers Let_def)

text \<open>At exactly 0, and back above it, the status follows the quantity.\<close>

lemma updateInventory_sold_out_and_restocked:
  "product_valid kettle \<and> product_valid lamp \<and>
   fst (updateInventory shop_env_up ''p1'' (Finite 5) subtract demo_shop) =
     Inr (Some (kettle\<lparr>quantity := Finite 0, status := ''out_of_stock''\<rparr>)) \<and>
   fst (updateInventory shop_env_up ''p2'' (Finite 3) add demo_shop) =
     Inr (Some (lamp\<lparr>quantity := Finite 3, status := ''active''\<rparr>))"
  by (simp add: updateInventory_def inc_quantity_def product_save_def product_valid_def
      cache_del_def publishMessage_def sample_defs sample_numbers Let_def)

text \<open>
  Not-a-number escapes both tests. The lamp is \<open>out_of_stock\<close> at 0; subtracting an
  infinite amount returns it at minus infinity, still \<open>out_of_stock\<close>, and adding an
  infinite amount then returns it \<open>out_of_stock\<close> with a quantity that is neither at
  most 0 nor above it.
\<close>

lemma updateInventory_not_a_number:
  "fst (updateInventory shop_env_up ''p2'' PosInf subtract demo_shop) =
     Inr (Some (lamp\<lparr>quantity := NegInf\<rparr>)) \<and>
   fst (updateInventory shop_env_up ''p2'' PosInf add
          (snd (updateInventory shop_env_up ''p2'' PosInf subtract demo_shop))) =
     Inr (Some (lamp\<lparr>quantity := NaN\<rparr>)) \<and>
   status (lamp\<lparr>quantity := NaN\<rparr>) = ''out_of_stock'' \<and>
   \<not> js_le (quantity (lamp\<lparr>quantity := NaN\<rparr>)) (Finite 0)"
  by (simp add: updateInventory_def inc_quantity_def product_save_def product_valid_def
      cache_del_def publishMessage_def sample_defs sample_numbers Let_def)

end
